theory Spec2Isabelle
  imports Complex_Main
begin

section \<open>Python values, exceptions and the operators the handlers apply to them\<close>

text \<open>
  The two route handlers of \<^verbatim>\<open>app.py\<close> work on dynamically typed values: what
  \<^verbatim>\<open>request.get_json()\<close> returns, what a data-frame cell holds, and the dictionaries
  handed to \<^verbatim>\<open>jsonify\<close>. One datatype covers them. A dictionary is an association
  list in insertion order (its keys are distinct, as in every Python \<^verbatim>\<open>dict\<close>).
  A Python float is modelled by the real number it denotes, with \<open>JNaN\<close> for
  not-a-number; rounding and infinities are outside the model.
\<close>

datatype json =
    JNull
  | JBool bool
  | JInt int
  | JFloat real
  | JNaN
  | JStr string
  | JArray "json list"
  | JObject "(string \<times> json) list"

text \<open>An exception is its class and the text \<^verbatim>\<open>str(e)\<close> gives.\<close>

datatype exc_class =
    JSONDecodeError | BadRequest | UnsupportedMediaType
  | TypeError | ValueError | KeyError | OutOfBoundsDatetime | OtherError

datatype exn = Exn (cls: exc_class) (str: string)

text \<open>Truth value testing, as \<^verbatim>\<open>not data\<close> applies it.\<close>

fun truthy :: "json \<Rightarrow> bool" where
  "truthy JNull = False"
| "truthy (JBool b) = b"
| "truthy (JInt i) = (i \<noteq> 0)"
| "truthy (JFloat r) = (r \<noteq> 0)"
| "truthy JNaN = True"
| "truthy (JStr s) = (s \<noteq> [])"
| "truthy (JArray xs) = (xs \<noteq> [])"
| "truthy (JObject kvs) = (kvs \<noteq> [])"

fun type_name :: "json \<Rightarrow> string" where
  "type_name JNull = ''NoneType''"
| "type_name (JBool b) = ''bool''"
| "type_name (JInt i) = ''int''"
| "type_name (JFloat r) = ''float''"
| "type_name JNaN = ''float''"
| "type_name (JStr s) = ''str''"
| "type_name (JArray xs) = ''list''"
| "type_name (JObject kvs) = ''dict''"

definition quoted :: "string \<Rightarrow> string" where
  "quoted s = [CHR 0x27] @ s @ [CHR 0x27]"

text \<open>\<^verbatim>\<open>k in s\<close> on two strings: \<open>k\<close> occurs in \<open>s\<close> as a contiguous piece.\<close>

fun substring :: "string \<Rightarrow> string \<Rightarrow> bool" where
  "substring k [] = (k = [])"
| "substring k (c # cs) = (take (length k) (c # cs) = k \<or> substring k cs)"

text \<open>
  \<^verbatim>\<open>k in data\<close> for a string \<open>k\<close>: key membership on a dict, element membership on
  a list, substring test on a string, and a \<^verbatim>\<open>TypeError\<close> on every other value
  (message text of CPython 3.12).
\<close>

fun contains :: "string \<Rightarrow> json \<Rightarrow> exn + bool" where
  "contains k (JObject kvs) = Inr (k \<in> set (map fst kvs))"
| "contains k (JArray xs) = Inr (JStr k \<in> set xs)"
| "contains k (JStr s) = Inr (substring k s)"
| "contains k v =
     Inl (Exn TypeError (''argument of type '' @ quoted (type_name v) @ '' is not iterable''))"

text \<open>\<^verbatim>\<open>data[k]\<close> for a string \<open>k\<close>: only a dict can be indexed by a string.\<close>

fun getitem :: "json \<Rightarrow> string \<Rightarrow> exn + json" where
  "getitem (JObject kvs) k =
     (case map_of kvs k of
        Some v \<Rightarrow> Inr v
      | None \<Rightarrow> Inl (Exn KeyError (quoted k)))"
| "getitem (JArray xs) k =
     Inl (Exn TypeError ''list indices must be integers or slices, not str'')"
| "getitem (JStr s) k =
     Inl (Exn TypeError (''string indices must be integers, not '' @ quoted ''str''))"
| "getitem v k =
     Inl (Exn TypeError (quoted (type_name v) @ '' object is not subscriptable''))"

section \<open>Dates\<close>

text \<open>
  A date/time value is the null value \<^verbatim>\<open>NaT\<close>, for which \<^verbatim>\<open>pd.isnull\<close> holds, or is
  given by the count of nanoseconds of its wall-clock reading since 1970-01-01T00:00
  (for a timezone-naive \<^verbatim>\<open>Timestamp\<close>, the time since the epoch). What
  \<^verbatim>\<open>strftime\<close> prints for it is the library's and the platform's part: a parameter of
  the environment below.
\<close>

datatype timestamp = NaT | Timestamp int

fun isnull :: "timestamp \<Rightarrow> bool" where
  "isnull NaT = True"
| "isnull (Timestamp t) = False"

section \<open>The collaborators: forecast rows, historical records, the environment\<close>

text \<open>
  The \<^verbatim>\<open>time\<close> cell of a forecast row is tested three ways by the handler: is it a
  \<^verbatim>\<open>str\<close>, has it a \<^verbatim>\<open>strftime\<close> attribute, or neither. \<open>Datetime\<close> stands for the
  values that have the attribute (a \<^verbatim>\<open>Timestamp\<close>, \<^verbatim>\<open>NaT\<close>); \<open>Value\<close> for every other
  cell content, strings among them.
\<close>

datatype date_value = Value json | Datetime timestamp

text \<open>
  The cells \<^verbatim>\<open>int(...)\<close> and \<^verbatim>\<open>float(...)\<close> are applied to come from a numeric or
  boolean column.
\<close>

datatype cell = CBool bool | CInt int | CFloat real | CNaN

fun py_int :: "cell \<Rightarrow> exn + int" where
  "py_int (CBool b) = Inr (if b then 1 else 0)"
| "py_int (CInt i) = Inr i"
| "py_int (CFloat r) = Inr (if 0 \<le> r then \<lfloor>r\<rfloor> else \<lceil>r\<rceil>)"
| "py_int CNaN = Inl (Exn ValueError ''cannot convert float NaN to integer'')"

fun py_float :: "cell \<Rightarrow> json" where
  "py_float (CBool b) = JFloat (if b then 1 else 0)"
| "py_float (CInt i) = JFloat (of_int i)"
| "py_float (CFloat r) = JFloat r"
| "py_float CNaN = JNaN"

record forecast_row =
  time :: date_value
  temperature_2m_max :: json
  apparent_temperature_max :: json
  relative_humidity_2m_mean :: json
  wind_speed_10m_max :: json
  cloud_cover_mean :: json
  precipitation_sum :: json
  is_heatwave :: cell
  heatwave_probability :: cell
  alert_level :: json
  alert_color :: json
  recommended_action :: json

text \<open>
  One line of the historical data file, with the six columns the handler reads
  (\<^verbatim>\<open>city\<close>, \<^verbatim>\<open>year\<close>, \<^verbatim>\<open>temperature_2m_max\<close>, \<^verbatim>\<open>is_heatwave\<close>,
  \<^verbatim>\<open>precipitation_sum\<close>, \<^verbatim>\<open>relative_humidity_2m_mean\<close>), every cell present.
\<close>

record hist_record =
  h_city :: string
  h_year :: int
  h_temperature_2m_max :: real
  h_is_heatwave :: int
  h_precipitation_sum :: real
  h_relative_humidity_2m_mean :: real

text \<open>
  What a request carries: the raw body (\<^verbatim>\<open>request.data\<close>), whether its content type
  announces JSON (\<^verbatim>\<open>request.is_json\<close>), and the query parameters
  (\<^verbatim>\<open>request.args\<close>).
\<close>

record request =
  data :: string
  is_json :: bool
  args :: "(string \<times> string) list"

text \<open>
  Everything the handlers call outside \<^verbatim>\<open>app.py\<close> is a parameter:
  \<^item> \<open>debug\<close>: the application's debug flag;
  \<^item> \<open>loads\<close>: the JSON decoder, \<open>Inl m\<close> when it raises its decode error with text \<open>m\<close>;
  \<^item> \<open>model_predict_heatwave\<close>: \<^verbatim>\<open>model.predict_heatwave(city)\<close>, the rows of the
    forecast or the exception it raises;
  \<^item> \<open>to_datetime_coerce\<close>: \<^verbatim>\<open>pd.to_datetime(s, errors='coerce')\<close> on a string, which
    gives \<^verbatim>\<open>NaT\<close> where it cannot parse;
  \<^item> \<open>to_datetime_ns\<close>: \<^verbatim>\<open>pd.to_datetime(v, unit='ns')\<close>, which raises where it cannot
    convert;
  \<^item> \<open>strftime\<close>: \<^verbatim>\<open>date_obj.strftime('%Y-%m-%d')\<close> of a date/time value that is not null;
  \<^item> \<open>data_file\<close>: the model's \<^verbatim>\<open>data_file\<close> attribute, \<open>None\<close> when it has none;
  \<^item> \<open>path_exists\<close>: \<^verbatim>\<open>os.path.exists\<close>;
  \<^item> \<open>read_csv\<close>: \<^verbatim>\<open>pd.read_csv\<close>, the records of the file or the exception raised.
\<close>

record env =
  debug :: bool
  loads :: "string \<Rightarrow> string + json"
  model_predict_heatwave :: "json \<Rightarrow> exn + forecast_row list"
  to_datetime_coerce :: "string \<Rightarrow> timestamp"
  to_datetime_ns :: "json \<Rightarrow> exn + timestamp"
  strftime :: "int \<Rightarrow> string"
  data_file :: "string option"
  path_exists :: "string \<Rightarrow> bool"
  read_csv :: "string \<Rightarrow> exn + hist_record list"

section \<open>Flask's \<^verbatim>\<open>get_json\<close>\<close>

text \<open>
  \<^verbatim>\<open>request.get_json()\<close> with its default arguments never lets the decoder's own
  error out: it hands every failure to \<^verbatim>\<open>on_json_loading_failed\<close>, which raises an
  HTTP exception: \<^verbatim>\<open>UnsupportedMediaType\<close> when the content type is not JSON and no
  decoding was tried, \<^verbatim>\<open>BadRequest\<close> when the decoder failed (with the decoder's text
  in debug mode only). The text of an HTTP exception is its code, name and description.
  This is the behaviour of Flask 2.3 and later; earlier versions differ only where the
  content type is not JSON (\<^verbatim>\<open>None\<close> is returned, or \<^verbatim>\<open>BadRequest\<close> raised), and
  raise \<^verbatim>\<open>BadRequest\<close> on a decoding failure all the same.
\<close>

definition on_json_loading_failed :: "env \<Rightarrow> string option \<Rightarrow> exn" where
  "on_json_loading_failed env e =
     (case e of
        None \<Rightarrow>
          Exn UnsupportedMediaType
            (''415 Unsupported Media Type: Did not attempt to load JSON data because ''
             @ ''the request Content-Type was not '' @ quoted ''application/json'' @ ''.'')
      | Some m \<Rightarrow>
          (if debug env
           then Exn BadRequest (''400 Bad Request: Failed to decode JSON object: '' @ m)
           else Exn BadRequest
                  (''400 Bad Request: The browser (or proxy) sent a request that ''
                   @ ''this server could not understand.'')))"

definition get_json :: "env \<Rightarrow> request \<Rightarrow> exn + json" where
  "get_json env req =
     (if \<not> is_json req then Inl (on_json_loading_failed env None)
      else
        (case loads env (data req) of
           Inl m \<Rightarrow> Inl (on_json_loading_failed env (Some m))
         | Inr v \<Rightarrow> Inr v))"

section \<open>Responses\<close>

record response =
  body :: json
  status_code :: nat

definition envelope :: "string \<Rightarrow> string \<Rightarrow> json" where
  "envelope e m = JObject [(''error'', JStr e), (''message'', JStr m), (''status'', JStr ''error'')]"

definition jsonify :: "json \<Rightarrow> nat \<Rightarrow> response" where
  "jsonify b c = \<lparr>body = b, status_code = c\<rparr>"

section \<open>\<^verbatim>\<open>POST /heatwave\<close>\<close>

text \<open>The date of one row: the three-way test, then \<^verbatim>\<open>"N/A"\<close> for a null date.\<close>

fun date_obj :: "env \<Rightarrow> date_value \<Rightarrow> exn + timestamp" where
  "date_obj env (Value (JStr s)) = Inr (to_datetime_coerce env s)"
| "date_obj env (Datetime t) = Inr t"
| "date_obj env (Value v) = to_datetime_ns env v"

fun formatted_date :: "env \<Rightarrow> timestamp \<Rightarrow> string" where
  "formatted_date env (Timestamp t) = strftime env t"
| "formatted_date env NaT = ''N/A''"

definition format_row :: "env \<Rightarrow> forecast_row \<Rightarrow> exn + json" where
  "format_row env row =
     (case date_obj env (time row) of
        Inl e \<Rightarrow> Inl e
      | Inr d \<Rightarrow>
          (case py_int (is_heatwave row) of
             Inl e \<Rightarrow> Inl e
           | Inr flag \<Rightarrow>
               Inr (JObject
                 [(''date'', JStr (formatted_date env d)),
                  (''temperature_2m_max'', temperature_2m_max row),
                  (''apparent_temperature_max'', apparent_temperature_max row),
                  (''relative_humidity_2m_mean'', relative_humidity_2m_mean row),
                  (''wind_speed_10m_max'', wind_speed_10m_max row),
                  (''cloud_cover_mean'', cloud_cover_mean row),
                  (''precipitation_sum'', precipitation_sum row),
                  (''is_heatwave'', JInt flag),
                  (''heatwave_probability'', py_float (heatwave_probability row)),
                  (''alert_level'', alert_level row),
                  (''alert_color'', alert_color row),
                  (''recommended_action'', recommended_action row)])))"

text \<open>The loop over the rows: the first exception ends it.\<close>

fun format_rows :: "env \<Rightarrow> forecast_row list \<Rightarrow> exn + json list" where
  "format_rows env [] = Inr []"
| "format_rows env (row # rows) =
     (case format_row env row of
        Inl e \<Rightarrow> Inl e
      | Inr p \<Rightarrow>
          (case format_rows env rows of
             Inl e \<Rightarrow> Inl e
           | Inr ps \<Rightarrow> Inr (p # ps)))"

definition missing_parameter :: response where
  "missing_parameter =
     jsonify (envelope ''Missing parameter'' ''City parameter is required in JSON body'') 400"

text \<open>
  The body of the outer \<^verbatim>\<open>try\<close>: a response, or the exception that reaches the outer
  \<^verbatim>\<open>except\<close>; with it, the arguments of the calls made to the model.
\<close>

definition predict_heatwave_try :: "env \<Rightarrow> request \<Rightarrow> (exn + response) \<times> json list" where
  "predict_heatwave_try env req =
     (if data req = []
      then (Inr (jsonify (envelope ''Empty request body'' ''Request must contain JSON data'') 400), [])
      else
        (case get_json env req of
           Inl e \<Rightarrow>
             (if cls e = JSONDecodeError
              then (Inr (jsonify (envelope ''Invalid JSON'' ''Request must be valid JSON'') 400), [])
              else (Inl e, []))
         | Inr d \<Rightarrow>
             (if \<not> truthy d then (Inr missing_parameter, [])
              else
                (case contains ''city'' d of
                   Inl e \<Rightarrow> (Inl e, [])
                 | Inr found \<Rightarrow>
                     (if \<not> found then (Inr missing_parameter, [])
                      else
                        (case getitem d ''city'' of
                           Inl e \<Rightarrow> (Inl e, [])
                         | Inr city \<Rightarrow>
                             (case model_predict_heatwave env city of
                                Inl e \<Rightarrow> (Inl e, [city])
                              | Inr forecast \<Rightarrow>
                                  (case format_rows env forecast of
                                     Inl e \<Rightarrow> (Inl e, [city])
                                   | Inr predictions \<Rightarrow>
                                       (Inr (jsonify
                                          (JObject
                                             [(''city'', city),
                                              (''predictions'', JArray predictions),
                                              (''message'', JStr ''Forecast generated successfully''),
                                              (''status'', JStr ''success'')])
                                          200),
                                        [city])))))))))"

definition predict_heatwave :: "env \<Rightarrow> request \<Rightarrow> response \<times> json list" where
  "predict_heatwave env req =
     (case predict_heatwave_try env req of
        (Inr r, calls) \<Rightarrow> (r, calls)
      | (Inl e, calls) \<Rightarrow>
          (jsonify (envelope (str e) ''Failed to process your request'') 500, calls))"

section \<open>\<^verbatim>\<open>GET /api/historical\<close>\<close>

text \<open>
  \<^verbatim>\<open>Series.unique()\<close>: the distinct values in the order in which they first appear
  (a pass over the values with the set of those already seen).
\<close>

fun unique_from :: "'a list \<Rightarrow> 'a list \<Rightarrow> 'a list" where
  "unique_from seen [] = []"
| "unique_from seen (x # xs) =
     (if x \<in> set seen then unique_from seen xs else x # unique_from (x # seen) xs)"

definition unique :: "'a list \<Rightarrow> 'a list" where
  "unique xs = unique_from [] xs"

text \<open>
  The aggregates of a column. The maximum, minimum and mean of a column without a value
  are not-a-number (\<open>None\<close> here); its sum is zero.
\<close>

fun col_max :: "real list \<Rightarrow> real option" where
  "col_max [] = None"
| "col_max (x # xs) = Some (fold max xs x)"

fun col_min :: "real list \<Rightarrow> real option" where
  "col_min [] = None"
| "col_min (x # xs) = Some (fold min xs x)"

definition col_mean :: "real list \<Rightarrow> real option" where
  "col_mean xs = (if xs = [] then None else Some (sum_list xs / real (length xs)))"

fun float_of :: "real option \<Rightarrow> json" where
  "float_of None = JNaN"
| "float_of (Some r) = JFloat r"

definition year_summary :: "hist_record list \<Rightarrow> int \<Rightarrow> json" where
  "year_summary city_data year =
     (let year_data = filter (\<lambda>r. h_year r = year) city_data
      in JObject
           [(''year'', JInt year),
            (''max_temp'', float_of (col_max (map h_temperature_2m_max year_data))),
            (''min_temp'', float_of (col_min (map h_temperature_2m_max year_data))),
            (''avg_temp'', float_of (col_mean (map h_temperature_2m_max year_data))),
            (''heatwave_days'', JInt (sum_list (map h_is_heatwave year_data))),
            (''precipitation'', JFloat (sum_list (map h_precipitation_sum year_data))),
            (''humidity'', float_of (col_mean (map h_relative_humidity_2m_mean year_data)))])"

definition formatted_data :: "hist_record list \<Rightarrow> json list" where
  "formatted_data city_data = map (year_summary city_data) (unique (map h_year city_data))"

definition get_historical_data_try :: "env \<Rightarrow> request \<Rightarrow> exn + response" where
  "get_historical_data_try env req =
     (case map_of (args req) ''city'' of
        None \<Rightarrow> Inr (jsonify (envelope ''Missing parameter'' ''City parameter is required'') 400)
      | Some city \<Rightarrow>
          (if city = []
           then Inr (jsonify (envelope ''Missing parameter'' ''City parameter is required'') 400)
           else
             (case data_file env of
                None \<Rightarrow>
                  Inr (jsonify
                         (envelope ''Data not available'' ''Historical data file not found'') 404)
              | Some f \<Rightarrow>
                  (if \<not> path_exists env f
                   then Inr (jsonify
                          (envelope ''Data not available'' ''Historical data file not found'') 404)
                   else
                     (case read_csv env f of
                        Inl e \<Rightarrow> Inl e
                      | Inr historical_data \<Rightarrow>
                          (let city_data = filter (\<lambda>r. h_city r = city) historical_data
                           in if city_data = []
                              then Inr (jsonify
                                     (envelope ''Data not found''
                                        (''No historical data available for '' @ city))
                                     404)
                              else Inr (jsonify
                                     (JObject
                                        [(''city'', JStr city),
                                         (''historical_data'', JArray (formatted_data city_data)),
                                         (''status'', JStr ''success'')])
                                     200)))))))"

definition get_historical_data :: "env \<Rightarrow> request \<Rightarrow> response" where
  "get_historical_data env req =
     (case get_historical_data_try env req of
        Inr r \<Rightarrow> r
      | Inl e \<Rightarrow> jsonify (envelope (str e) ''Failed to fetch historical data'') 500)"

section \<open>The forecast rows of the specification\<close>


section \<open>A sample environment\<close>

text \<open>
  A concrete environment for evaluating the handlers: a decoder that agrees with
  \<^verbatim>\<open>json.loads\<close> on the bodies listed, a model with a four-day forecast for every city
  given as a string, date conversions that agree with pandas on the values used, and a
  data file of six records. The text of the exception raised by the sample model
  stands for that of the model, which is not among the sources.
\<close>

definition sample_loads :: "string \<Rightarrow> string + json" where
  "sample_loads b =
     (case map_of
        [(''{\"city\": \"Phoenix\"}'', JObject [(''city'', JStr ''Phoenix'')]),
         (''{\"city\": \"\"}'', JObject [(''city'', JStr [])]),
         (''{\"town\": \"Phoenix\"}'', JObject [(''town'', JStr ''Phoenix'')]),
         (''null'', JNull), (''false'', JBool False), (''0'', JInt 0),
         (''\"\"'', JStr []), (''[]'', JArray []), (''{}'', JObject []),
         (''5'', JInt 5), (''[\"city\"]'', JArray [JStr ''city''])] b of
        Some v \<Rightarrow> Inr v
      | None \<Rightarrow> Inl ''Expecting value: line 1 column 1 (char 0)'')"

text \<open>
  The sample \<^verbatim>\<open>strftime('%Y-%m-%d')\<close>: the day number of the nanosecond count, turned into
  a year, a month and a day of the proleptic Gregorian calendar and printed with four,
  two and two digits. It agrees with the library on the years of four digits, those of
  a nanosecond \<^verbatim>\<open>Timestamp\<close> (1677 to 2262) among them.
\<close>

definition civil_from_days :: "int \<Rightarrow> int \<times> int \<times> int" where
  "civil_from_days z0 =
     (let z = z0 + 719468;
          era = z div 146097;
          doe = z mod 146097;
          yoe = (doe - doe div 1460 + doe div 36524 - doe div 146096) div 365;
          doy = doe - (365 * yoe + yoe div 4 - yoe div 100);
          mp = (5 * doy + 2) div 153;
          d = doy - (153 * mp + 2) div 5 + 1;
          m = (if mp < 10 then mp + 3 else mp - 9);
          y = yoe + era * 400 + (if m \<le> 2 then 1 else 0)
      in (y, m, d))"

definition digit :: "int \<Rightarrow> char" where
  "digit n = ''0123456789'' ! nat (n mod 10)"

definition pad2 :: "int \<Rightarrow> string" where
  "pad2 n = [digit (n div 10), digit n]"

definition pad4 :: "int \<Rightarrow> string" where
  "pad4 n = [digit (n div 1000), digit (n div 100), digit (n div 10), digit n]"

definition ns_per_day :: int where
  "ns_per_day = 86400 * 1000000000"

definition sample_strftime :: "int \<Rightarrow> string" where
  "sample_strftime t =
     (case civil_from_days (t div ns_per_day) of
        (y, m, d) \<Rightarrow> pad4 y @ ''-'' @ pad2 m @ ''-'' @ pad2 d)"

text \<open>The decimal digits of a number that is not negative, for the text of an exception.\<close>

function show_digits :: "int \<Rightarrow> string" where
  "show_digits n =
     (if n < 10 then [digit n]
      else show_digits (n div 10) @ [digit n])"
  by pat_completeness auto
termination
  by (relation "measure nat") auto

declare show_digits.simps [simp del]

definition sample_row :: "date_value \<Rightarrow> forecast_row" where
  "sample_row t =
     \<lparr>time = t,
      temperature_2m_max = JFloat 41.5,
      apparent_temperature_max = JFloat 43,
      relative_humidity_2m_mean = JFloat 18,
      wind_speed_10m_max = JFloat 12.5,
      cloud_cover_mean = JFloat 5,
      precipitation_sum = JFloat 0,
      is_heatwave = CInt 1,
      heatwave_probability = CFloat 0.75,
      alert_level = JStr ''High'',
      alert_color = JStr ''orange'',
      recommended_action = JStr ''Stay hydrated''\<rparr>"

definition sample_forecast :: "forecast_row list" where
  "sample_forecast =
     [sample_row (Value (JStr ''2024-07-01'')),
      sample_row (Datetime (Timestamp 1719792000000000000)),
      sample_row (Value (JInt 1719792000000000000)),
      sample_row (Value (JStr ''someday''))]"

definition sample_model :: "json \<Rightarrow> exn + forecast_row list" where
  "sample_model city =
     (case city of
        JStr s \<Rightarrow> Inr sample_forecast
      | _ \<Rightarrow> Inl (Exn TypeError ''city must be a string''))"

definition sample_to_datetime_coerce :: "string \<Rightarrow> timestamp" where
  "sample_to_datetime_coerce s =
     (if s = ''2024-07-01'' then Timestamp 1719792000000000000 else NaT)"

definition sample_to_datetime_ns :: "json \<Rightarrow> exn + timestamp" where
  "sample_to_datetime_ns v =
     (case v of
        JNull \<Rightarrow> Inr NaT
      | JInt n \<Rightarrow>
          (if - (2 ^ 63) < n \<and> n < 2 ^ 63 then Inr (Timestamp n)
           else Inl (Exn OutOfBoundsDatetime
                  (''cannot convert input '' @ (if n < 0 then ''-'' else [])
                   @ show_digits \<bar>n\<bar> @ '' with the unit '' @ quoted ''ns'')))
      | _ \<Rightarrow> Inl (Exn TypeError ''value is not convertible to datetime''))"

definition sample_record :: "string \<Rightarrow> int \<Rightarrow> real \<Rightarrow> int \<Rightarrow> hist_record" where
  "sample_record c y t h =
     \<lparr>h_city = c, h_year = y, h_temperature_2m_max = t, h_is_heatwave = h,
      h_precipitation_sum = 1.5, h_relative_humidity_2m_mean = 40\<rparr>"

definition sample_dataset :: "hist_record list" where
  "sample_dataset =
     [sample_record ''X'' 2020 30 0,
      sample_record ''Y'' 2021 25 0,
      sample_record ''X'' 2020 35 1,
      sample_record ''X'' 2020 32 0,
      sample_record ''Y'' 2020 20 0,
      sample_record ''X'' 2021 33 1]"

definition sample_env :: env where
  "sample_env =
     \<lparr>debug = False,
      loads = sample_loads,
      model_predict_heatwave = sample_model,
      to_datetime_coerce = sample_to_datetime_coerce,
      to_datetime_ns = sample_to_datetime_ns,
      strftime = sample_strftime,
      data_file = Some ''historical.csv'',
      path_exists = (\<lambda>p. p = ''historical.csv''),
      read_csv = (\<lambda>p. Inr sample_dataset)\<rparr>"

definition sample_prediction :: "string \<Rightarrow> json" where
  "sample_prediction d =
     JObject
       [(''date'', JStr d),
        (''temperature_2m_max'', JFloat 41.5),
        (''apparent_temperature_max'', JFloat 43),
        (''relative_humidity_2m_mean'', JFloat 18),
        (''wind_speed_10m_max'', JFloat 12.5),
        (''cloud_cover_mean'', JFloat 5),
        (''precipitation_sum'', JFloat 0),
        (''is_heatwave'', JInt 1),
        (''heatwave_probability'', JFloat 0.75),
        (''alert_level'', JStr ''High''),
        (''alert_color'', JStr ''orange''),
        (''recommended_action'', JStr ''Stay hydrated'')]"

text \<open>
  A variant: a model whose only row carries a number of nanoseconds far beyond the range
  of a \<^verbatim>\<open>Timestamp\<close>.
\<close>

definition unparseable_env :: env where
  "unparseable_env =
     sample_env\<lparr>model_predict_heatwave :=
       (\<lambda>city. Inr [sample_row (Value (JInt (10 ^ 30)))])\<rparr>"

definition post :: "string \<Rightarrow> request" where
  "post b = \<lparr>data = b, is_json = True, args = []\<rparr>"

definition get :: "(string \<times> string) list \<Rightarrow> request" where
  "get q = \<lparr>data = [], is_json = False, args = q\<rparr>"

section \<open>The sample environment evaluated\<close>

lemma strftime_2024_07_01: "strftime sample_env 1719792000000000000 = ''2024-07-01''"
proof -
  have "sample_strftime 1719792000000000000 = ''2024-07-01''"
    by code_simp
  then show ?thesis
    by (simp add: sample_env_def)
qed

lemma sample_date_objs:
  "date_obj sample_env (Value (JStr ''2024-07-01'')) = Inr (Timestamp 1719792000000000000)"
  "date_obj sample_env (Datetime (Timestamp 1719792000000000000)) = Inr (Timestamp 1719792000000000000)"
  "date_obj sample_env (Value (JInt 1719792000000000000)) = Inr (Timestamp 1719792000000000000)"
  "date_obj sample_env (Value (JStr ''someday'')) = Inr NaT"
  by (simp_all add: sample_env_def sample_to_datetime_coerce_def sample_to_datetime_ns_def)

lemma sample_format_row:
  "format_row sample_env (sample_row t) =
     (case date_obj sample_env t of
        Inl e \<Rightarrow> Inl e
      | Inr d \<Rightarrow> Inr (sample_prediction (formatted_date sample_env d)))"
  by (simp add: format_row_def sample_row_def sample_prediction_def split: sum.splits)

lemma sample_format_rows:
  "format_rows sample_env sample_forecast =
     Inr [sample_prediction ''2024-07-01'', sample_prediction ''2024-07-01'',
          sample_prediction ''2024-07-01'', sample_prediction ''N/A'']"
  by (simp add: sample_forecast_def sample_format_row sample_date_objs strftime_2024_07_01
      del: date_obj.simps)

lemma sample_get_json:
  "sample_loads b = Inr v \<Longrightarrow> get_json sample_env (post b) = Inr v"
  "sample_loads b = Inl m \<Longrightarrow> get_json sample_env (post b) =
      Inl (on_json_loading_failed sample_env (Some m))"
  by (simp_all add: get_json_def sample_env_def post_def)

lemma sample_loads_values:
  "sample_loads ''{\"city\": \"Phoenix\"}'' = Inr (JObject [(''city'', JStr ''Phoenix'')])"
  "sample_loads ''{\"city\": \"\"}'' = Inr (JObject [(''city'', JStr [])])"
  "sample_loads ''{\"town\": \"Phoenix\"}'' = Inr (JObject [(''town'', JStr ''Phoenix'')])"
  "sample_loads ''null'' = Inr JNull"
  "sample_loads ''5'' = Inr (JInt 5)"
  "sample_loads ''[\"city\"]'' = Inr (JArray [JStr ''city''])"
  "sample_loads ''not json'' = Inl ''Expecting value: line 1 column 1 (char 0)''"
  by (simp_all add: sample_loads_def)

lemma sample_success:
  assumes "b \<noteq> []" and "sample_loads b = Inr (JObject kvs)" and "map_of kvs ''city'' = Some (JStr s)"
  shows "predict_heatwave sample_env (post b) =
     (\<lparr>body = JObject
         [(''city'', JStr s),
          (''predictions'',
           JArray [sample_prediction ''2024-07-01'', sample_prediction ''2024-07-01'',
                   sample_prediction ''2024-07-01'', sample_prediction ''N/A'']),
          (''message'', JStr ''Forecast generated successfully''),
          (''status'', JStr ''success'')],
       status_code = 200\<rparr>, [JStr s])"
proof -
  have g: "get_json sample_env (post b) = Inr (JObject kvs)"
    using assms(2) by (rule sample_get_json)
  have d: "data (post b) \<noteq> []" using assms(1) by (simp add: post_def)
  from assms(3) have ne: "kvs \<noteq> []" by auto
  from assms(3) have mem: "''city'' \<in> fst ` set kvs"
    by (metis domI dom_map_of_conv_image_fst)
  have m: "model_predict_heatwave sample_env (JStr s) = Inr sample_forecast"
    by (simp add: sample_env_def sample_model_def)
  show ?thesis
    using g d ne mem m assms(3)
    by (simp add: predict_heatwave_def predict_heatwave_try_def sample_format_rows jsonify_def)
qed

section \<open>Request validation of \<^verbatim>\<open>POST /heatwave\<close>\<close>

text \<open>
  Whatever \<^verbatim>\<open>get_json\<close> raises, it is not the decoder's own error class: the inner
  \<^verbatim>\<open>except json.JSONDecodeError\<close> never matches.
\<close>

lemma get_json_never_decode_error:
  "get_json env req = Inl e \<Longrightarrow> cls e \<noteq> JSONDecodeError"
  by (auto simp: get_json_def on_json_loading_failed_def split: if_splits sum.splits option.splits)

lemma rejected_without_city:
  assumes "data req \<noteq> []" and "get_json env req = Inr d"
    and "\<not> truthy d \<or> contains ''city'' d = Inr False"
  shows "predict_heatwave env req = (missing_parameter, [])"
  using assms by (auto simp: predict_heatwave_def predict_heatwave_try_def)

lemma model_called_with_city:
  assumes "data req \<noteq> []" and "get_json env req = Inr (JObject kvs)"
    and "map_of kvs ''city'' = Some c"
  shows "snd (predict_heatwave env req) = [c]"
    and "status_code (fst (predict_heatwave env req)) \<in> {200, 500}"
proof -
  from assms(3) have ne: "kvs \<noteq> []" by auto
  from assms(3) have mem: "''city'' \<in> fst ` set kvs"
    by (metis domI dom_map_of_conv_image_fst)
  show "snd (predict_heatwave env req) = [c]"
    using assms ne mem
    by (simp add: predict_heatwave_def predict_heatwave_try_def jsonify_def
        split: sum.splits)
  show "status_code (fst (predict_heatwave env req)) \<in> {200, 500}"
    using assms ne mem
    by (simp add: predict_heatwave_def predict_heatwave_try_def jsonify_def
        split: sum.splits)
qed

lemma malformed_json_500:
  assumes "data req \<noteq> []" and "is_json req" and "loads env (data req) = Inl m"
  shows "predict_heatwave env req =
           (jsonify (envelope (str (on_json_loading_failed env (Some m)))
                       ''Failed to process your request'') 500, [])"
proof -
  have g: "get_json env req = Inl (on_json_loading_failed env (Some m))"
    using assms by (simp add: get_json_def)
  from get_json_never_decode_error [OF g] show ?thesis
    using assms(1) g by (simp add: predict_heatwave_def predict_heatwave_try_def)
qed

text \<open>
  C9. A request with an empty body is answered with status 400 and the error
  \<^verbatim>\<open>Empty request body\<close>, and the model is not called. The statement holds for every
  environment, so for every decoder: the answer is settled before the body is parsed.
\<close>

theorem empty_body_rejected:
  "data req = [] \<Longrightarrow>
     predict_heatwave env req =
       (\<lparr>body = JObject [(''error'', JStr ''Empty request body''),
                        (''message'', JStr ''Request must contain JSON data''),
                        (''status'', JStr ''error'')],
         status_code = 400\<rparr>, [])"
  by (simp add: predict_heatwave_def predict_heatwave_try_def jsonify_def envelope_def)

theorem empty_body_rejected_witness:
  "data (post []) = [] \<and>
   predict_heatwave sample_env (post []) =
       (\<lparr>body = JObject [(''error'', JStr ''Empty request body''),
                        (''message'', JStr ''Request must contain JSON data''),
                        (''status'', JStr ''error'')],
         status_code = 400\<rparr>, [])"
  using empty_body_rejected [of "post []" sample_env] by (simp add: post_def)

text \<open>
  C1. A body that is not JSON, sent with a JSON content type: \<^verbatim>\<open>get_json\<close> raises
  \<^verbatim>\<open>BadRequest\<close>, the inner handler for the decoder's error does not match, and the
  outer handler answers with status 500 and the text of the HTTP exception, not with
  status 400 and \<^verbatim>\<open>Invalid JSON\<close>.
\<close>

theorem malformed_json_answered_500:
  "predict_heatwave sample_env (post ''not json'') =
     (\<lparr>body = JObject
         [(''error'', JStr (''400 Bad Request: The browser (or proxy) sent a request that ''
                            @ ''this server could not understand.'')),
          (''message'', JStr ''Failed to process your request''),
          (''status'', JStr ''error'')],
       status_code = 500\<rparr>, [])"
  by (simp add: predict_heatwave_def predict_heatwave_try_def get_json_def
      on_json_loading_failed_def sample_env_def sample_loads_def post_def jsonify_def envelope_def)

text \<open>
  C2, as the code has it. Of a request whose body is not empty and is decoded to a
  value: when the value is falsy, or is a dict, list or string in which \<^verbatim>\<open>'city'\<close> does
  not occur, the answer is status 400 with \<^verbatim>\<open>Missing parameter\<close> and the model is not
  called; when it is a dict with the key \<^verbatim>\<open>city\<close>, the model is called with that
  key's value, whatever it is, and the answer is a 200 or a 500: the validation tests
  the presence of the key, not its value.
\<close>

theorem city_key_decides_rejection:
  assumes "data req \<noteq> []" and "get_json env req = Inr d"
  shows "(\<not> truthy d \<or> contains ''city'' d = Inr False \<longrightarrow>
            predict_heatwave env req =
              (\<lparr>body = JObject [(''error'', JStr ''Missing parameter''),
                               (''message'', JStr ''City parameter is required in JSON body''),
                               (''status'', JStr ''error'')],
                status_code = 400\<rparr>, []))
       \<and> (\<forall>kvs c. d = JObject kvs \<and> map_of kvs ''city'' = Some c \<longrightarrow>
            snd (predict_heatwave env req) = [c]
            \<and> status_code (fst (predict_heatwave env req)) \<in> {200, 500})"
proof (intro conjI impI allI)
  assume "\<not> truthy d \<or> contains ''city'' d = Inr False"
  from rejected_without_city [OF assms this]
  show "predict_heatwave env req =
              (\<lparr>body = JObject [(''error'', JStr ''Missing parameter''),
                               (''message'', JStr ''City parameter is required in JSON body''),
                               (''status'', JStr ''error'')],
                status_code = 400\<rparr>, [])"
    by (simp add: missing_parameter_def jsonify_def envelope_def)
next
  fix kvs c
  assume a: "d = JObject kvs \<and> map_of kvs ''city'' = Some c"
  with assms have g: "get_json env req = Inr (JObject kvs)" by simp
  from model_called_with_city(1) [OF assms(1) g] a
  show "snd (predict_heatwave env req) = [c]" by simp
  from model_called_with_city(2) [OF assms(1) g] a
  show "status_code (fst (predict_heatwave env req)) \<in> {200, 500}" by simp
qed

theorem city_key_decides_rejection_witness:
  "data (post ''{\"town\": \"Phoenix\"}'') \<noteq> []
   \<and> get_json sample_env (post ''{\"town\": \"Phoenix\"}'') = Inr (JObject [(''town'', JStr ''Phoenix'')])
   \<and> contains ''city'' (JObject [(''town'', JStr ''Phoenix'')]) = Inr False
   \<and> predict_heatwave sample_env (post ''{\"town\": \"Phoenix\"}'') =
              (\<lparr>body = JObject [(''error'', JStr ''Missing parameter''),
                               (''message'', JStr ''City parameter is required in JSON body''),
                               (''status'', JStr ''error'')],
                status_code = 400\<rparr>, [])
   \<and> data (post ''{\"city\": \"\"}'') \<noteq> []
   \<and> get_json sample_env (post ''{\"city\": \"\"}'') = Inr (JObject [(''city'', JStr [])])
   \<and> map_of [(''city'', JStr [])] ''city'' = Some (JStr [])
   \<and> snd (predict_heatwave sample_env (post ''{\"city\": \"\"}'')) = [JStr []]"
proof -
  have d1: "data (post ''{\"town\": \"Phoenix\"}'') \<noteq> []" by (simp add: post_def)
  have g1: "get_json sample_env (post ''{\"town\": \"Phoenix\"}'') = Inr (JObject [(''town'', JStr ''Phoenix'')])"
    by (simp add: sample_get_json sample_loads_values)
  have d2: "data (post ''{\"city\": \"\"}'') \<noteq> []" by (simp add: post_def)
  have g2: "get_json sample_env (post ''{\"city\": \"\"}'') = Inr (JObject [(''city'', JStr [])])"
    by (simp add: sample_get_json sample_loads_values)
  from city_key_decides_rejection [OF d1 g1] city_key_decides_rejection [OF d2 g2]
  show ?thesis using d1 g1 d2 g2 by simp
qed

text \<open>
  C2 as stated fails on the body \<^verbatim>\<open>{"city": ""}\<close>: the request is not answered with
  status 400, and the model is called with the empty string.
\<close>

theorem empty_city_accepted:
  "get_json sample_env (post ''{\"city\": \"\"}'') = Inr (JObject [(''city'', JStr [])])
   \<and> snd (predict_heatwave sample_env (post ''{\"city\": \"\"}'')) = [JStr []]
   \<and> status_code (fst (predict_heatwave sample_env (post ''{\"city\": \"\"}''))) \<noteq> 400"
  by (simp add: sample_get_json sample_loads_values
      sample_success [of _ "[(''city'', JStr [])]" "[]"])

text \<open>
  C10. A body that is decoded to a falsy value (\<^verbatim>\<open>null\<close>, \<^verbatim>\<open>false\<close>, \<^verbatim>\<open>0\<close>, \<^verbatim>\<open>""\<close>,
  \<^verbatim>\<open>[]\<close>, \<^verbatim>\<open>{}\<close>) is answered with status 400 and \<^verbatim>\<open>Missing parameter\<close>, without a
  call to the model: the very answer given to a dict without the key \<^verbatim>\<open>city\<close>.
\<close>

theorem falsy_body_missing_parameter:
  assumes "data req \<noteq> []" and "get_json env req = Inr d" and "\<not> truthy d"
  shows "predict_heatwave env req =
           (\<lparr>body = JObject [(''error'', JStr ''Missing parameter''),
                            (''message'', JStr ''City parameter is required in JSON body''),
                            (''status'', JStr ''error'')],
             status_code = 400\<rparr>, [])
       \<and> (\<forall>req' kvs. data req' \<noteq> [] \<and> get_json env req' = Inr (JObject kvs)
              \<and> map_of kvs ''city'' = None \<longrightarrow>
            predict_heatwave env req' = predict_heatwave env req)
       \<and> (\<forall>v \<in> set [JNull, JBool False, JInt 0, JStr [], JArray [], JObject []]. \<not> truthy v)"
proof -
  have r: "predict_heatwave env req = (missing_parameter, [])"
    using assms by (intro rejected_without_city) auto
  have "predict_heatwave env req' = (missing_parameter, [])"
    if "data req' \<noteq> []" "get_json env req' = Inr (JObject kvs)" "map_of kvs ''city'' = None"
    for req' kvs
  proof -
    from that(3) have "''city'' \<notin> fst ` set kvs" by (simp add: map_of_eq_None_iff)
    then have "contains ''city'' (JObject kvs) = Inr False" by simp
    with that show ?thesis by (intro rejected_without_city) auto
  qed
  with r show ?thesis by (simp add: missing_parameter_def jsonify_def envelope_def)
qed

theorem falsy_body_missing_parameter_witness:
  "data (post ''null'') \<noteq> [] \<and> get_json sample_env (post ''null'') = Inr JNull \<and> \<not> truthy JNull
   \<and> predict_heatwave sample_env (post ''null'') =
           (\<lparr>body = JObject [(''error'', JStr ''Missing parameter''),
                            (''message'', JStr ''City parameter is required in JSON body''),
                            (''status'', JStr ''error'')],
             status_code = 400\<rparr>, [])
   \<and> data (post ''{\"town\": \"Phoenix\"}'') \<noteq> []
   \<and> get_json sample_env (post ''{\"town\": \"Phoenix\"}'') = Inr (JObject [(''town'', JStr ''Phoenix'')])
   \<and> map_of [(''town'', JStr ''Phoenix'')] ''city'' = None
   \<and> predict_heatwave sample_env (post ''{\"town\": \"Phoenix\"}'') = predict_heatwave sample_env (post ''null'')
   \<and> \<not> truthy (JArray [])"
proof -
  have d1: "data (post ''null'') \<noteq> []" by (simp add: post_def)
  have g1: "get_json sample_env (post ''null'') = Inr JNull"
    by (simp add: sample_get_json sample_loads_values)
  have t1: "\<not> truthy JNull" by simp
  have d2: "data (post ''{\"town\": \"Phoenix\"}'') \<noteq> []" by (simp add: post_def)
  have g2: "get_json sample_env (post ''{\"town\": \"Phoenix\"}'') = Inr (JObject [(''town'', JStr ''Phoenix'')])"
    by (simp add: sample_get_json sample_loads_values)
  have m2: "map_of [(''town'', JStr ''Phoenix'')] ''city'' = None" by simp
  note w = falsy_body_missing_parameter [OF d1 g1 t1]
  from w have a: "predict_heatwave sample_env (post ''null'') =
           (\<lparr>body = JObject [(''error'', JStr ''Missing parameter''),
                            (''message'', JStr ''City parameter is required in JSON body''),
                            (''status'', JStr ''error'')],
             status_code = 400\<rparr>, [])" by blast
  from w d2 g2 m2 have b: "predict_heatwave sample_env (post ''{\"town\": \"Phoenix\"}'') = predict_heatwave sample_env (post ''null'')"
    by blast
  from w have c: "\<not> truthy (JArray [])" by simp
  show ?thesis using d1 g1 t1 a d2 g2 m2 b c by blast
qed

section \<open>\<^verbatim>\<open>GET /api/historical\<close>: checks, aggregation and order\<close>

lemma set_unique_from: "set (unique_from seen xs) = set xs - set seen"
  by (induction xs arbitrary: seen) auto

lemma distinct_unique_from: "distinct (unique_from seen xs)"
  by (induction xs arbitrary: seen) (auto simp: set_unique_from)

lemma sorted_unique_from: "sorted xs \<Longrightarrow> sorted (unique_from seen xs)"
  by (induction xs arbitrary: seen) (auto simp: set_unique_from)

lemma remdups_snoc:
  "remdups (ys @ [x]) = remdups (filter (\<lambda>y. y \<noteq> x) ys) @ [x]"
  by (induction ys) auto

lemma unique_from_remdups:
  "unique_from seen xs = rev (remdups (rev (filter (\<lambda>x. x \<notin> set seen) xs)))"
proof (induction xs arbitrary: seen)
  case Nil
  show ?case by simp
next
  case (Cons x xs)
  show ?case
  proof (cases "x \<in> set seen")
    case True
    with Cons show ?thesis by simp
  next
    case False
    let ?F = "filter (\<lambda>y. y \<notin> set seen) xs"
    have a: "remdups (rev ?F @ [x]) = remdups (filter (\<lambda>y. y \<noteq> x) (rev ?F)) @ [x]"
      by (rule remdups_snoc)
    have b: "filter (\<lambda>y. y \<noteq> x) (rev ?F) = rev (filter (\<lambda>y. y \<notin> set (x # seen)) xs)"
      by (simp add: rev_filter [symmetric] conj_commute)
    have "unique_from seen (x # xs) = x # unique_from (x # seen) xs"
      using False by simp
    also have "\<dots> = x # rev (remdups (rev (filter (\<lambda>y. y \<notin> set (x # seen)) xs)))"
      by (simp only: Cons.IH)
    also have "\<dots> = rev (remdups (rev ?F @ [x]))"
      by (simp only: a b) simp
    also have "rev ?F @ [x] = rev (filter (\<lambda>y. y \<notin> set seen) (x # xs))"
      using False by simp
    finally show ?thesis .
  qed
qed

lemma unique_remdups: "unique xs = rev (remdups (rev xs))"
  by (simp add: unique_def unique_from_remdups)

lemma set_unique: "set (unique xs) = set xs"
  by (simp add: unique_def set_unique_from)

lemma strict_sorted_unique: "sorted xs \<Longrightarrow> sorted_wrt (<) (unique xs)"
  by (simp add: strict_sorted_iff unique_def sorted_unique_from distinct_unique_from)

lemma getitem_year_summary: "getitem (year_summary city_data y) ''year'' = Inr (JInt y)"
  by (simp add: year_summary_def Let_def)

lemma historical_success:
  assumes "map_of (args req) ''city'' = Some city" and "city \<noteq> []"
    and "data_file env = Some f" and "path_exists env f"
    and "read_csv env f = Inr historical_data"
    and "filter (\<lambda>r. h_city r = city) historical_data \<noteq> []"
  shows "get_historical_data env req =
           jsonify (JObject
             [(''city'', JStr city),
              (''historical_data'',
               JArray (formatted_data (filter (\<lambda>r. h_city r = city) historical_data))),
              (''status'', JStr ''success'')]) 200"
  using assms by (simp add: get_historical_data_def get_historical_data_try_def Let_def)

lemma sample_city_data_X:
  "filter (\<lambda>r. h_city r = ''X'') sample_dataset =
     [sample_record ''X'' 2020 30 0, sample_record ''X'' 2020 35 1,
      sample_record ''X'' 2020 32 0, sample_record ''X'' 2021 33 1]"
  by (simp add: sample_dataset_def sample_record_def)

lemma sample_env_fields:
  "data_file sample_env = Some ''historical.csv''"
  "path_exists sample_env ''historical.csv''"
  "read_csv sample_env ''historical.csv'' = Inr sample_dataset"
  by (simp_all add: sample_env_def)

lemma sample_year_data_X_2020:
  "filter (\<lambda>r. h_year r = 2020) (filter (\<lambda>r. h_city r = ''X'') sample_dataset) =
     [sample_record ''X'' 2020 30 0, sample_record ''X'' 2020 35 1, sample_record ''X'' 2020 32 0]"
  by (simp add: sample_city_data_X) (simp add: sample_record_def)

lemma fold_max_Max: "fold max xs (x::real) = Max (set (x # xs))"
  by (simp only: Max.set_eq_fold)

lemma fold_min_Min: "fold min xs (x::real) = Min (set (x # xs))"
  by (simp only: Min.set_eq_fold)

lemma col_max_Max: "xs \<noteq> [] \<Longrightarrow> col_max xs = Some (Max (set xs))"
  by (cases xs) (simp_all only: col_max.simps fold_max_Max, simp)

lemma col_min_Min: "xs \<noteq> [] \<Longrightarrow> col_min xs = Some (Min (set xs))"
  by (cases xs) (simp_all only: col_min.simps fold_min_Min, simp)

lemma sum_flags_count:
  "\<forall>r \<in> set rs. h_is_heatwave r \<in> {0, 1} \<Longrightarrow>
     sum_list (map h_is_heatwave rs) = int (length (filter (\<lambda>r. h_is_heatwave r = 1) rs))"
  by (induction rs) auto

text \<open>
  C6. The checks of \<^verbatim>\<open>GET /api/historical\<close> in their order: without a \<^verbatim>\<open>city\<close>
  parameter, or with an empty one, the answer is status 400 and \<^verbatim>\<open>Missing parameter\<close>,
  whatever the data file; with a city, and no data file attribute or no file at its
  path, it is status 404 and \<^verbatim>\<open>Data not available\<close>; with a city and a file that is
  read and holds no record of the city, it is status 404 and \<^verbatim>\<open>Data not found\<close>, the
  message ending in the city's name; and a 200 is given only when all three checks
  passed, with the summaries of the city's records.
\<close>

theorem historical_checks_in_order:
  "(map_of (args req) ''city'' = None \<or> map_of (args req) ''city'' = Some [] \<longrightarrow>
      get_historical_data env req =
        \<lparr>body = JObject [(''error'', JStr ''Missing parameter''),
                         (''message'', JStr ''City parameter is required''),
                         (''status'', JStr ''error'')],
         status_code = 400\<rparr>)
 \<and> (\<forall>city. map_of (args req) ''city'' = Some city \<and> city \<noteq> []
       \<and> (data_file env = None \<or> (\<exists>f. data_file env = Some f \<and> \<not> path_exists env f)) \<longrightarrow>
      get_historical_data env req =
        \<lparr>body = JObject [(''error'', JStr ''Data not available''),
                         (''message'', JStr ''Historical data file not found''),
                         (''status'', JStr ''error'')],
         status_code = 404\<rparr>)
 \<and> (\<forall>city f historical_data.
       map_of (args req) ''city'' = Some city \<and> city \<noteq> []
       \<and> data_file env = Some f \<and> path_exists env f
       \<and> read_csv env f = Inr historical_data
       \<and> filter (\<lambda>r. h_city r = city) historical_data = [] \<longrightarrow>
      get_historical_data env req =
        \<lparr>body = JObject [(''error'', JStr ''Data not found''),
                         (''message'', JStr (''No historical data available for '' @ city)),
                         (''status'', JStr ''error'')],
         status_code = 404\<rparr>)
 \<and> (status_code (get_historical_data env req) = 200 \<longrightarrow>
      (\<exists>city f historical_data.
         map_of (args req) ''city'' = Some city \<and> city \<noteq> []
         \<and> data_file env = Some f \<and> path_exists env f
         \<and> read_csv env f = Inr historical_data
         \<and> filter (\<lambda>r. h_city r = city) historical_data \<noteq> []
         \<and> body (get_historical_data env req) =
             JObject
               [(''city'', JStr city),
                (''historical_data'',
                 JArray (formatted_data (filter (\<lambda>r. h_city r = city) historical_data))),
                (''status'', JStr ''success'')]))"
proof (intro conjI impI allI)
  assume "map_of (args req) ''city'' = None \<or> map_of (args req) ''city'' = Some []"
  then show "get_historical_data env req =
        \<lparr>body = JObject [(''error'', JStr ''Missing parameter''),
                         (''message'', JStr ''City parameter is required''),
                         (''status'', JStr ''error'')],
         status_code = 400\<rparr>"
    by (auto simp: get_historical_data_def get_historical_data_try_def jsonify_def envelope_def)
next
  fix city
  assume "map_of (args req) ''city'' = Some city \<and> city \<noteq> []
       \<and> (data_file env = None \<or> (\<exists>f. data_file env = Some f \<and> \<not> path_exists env f))"
  then show "get_historical_data env req =
        \<lparr>body = JObject [(''error'', JStr ''Data not available''),
                         (''message'', JStr ''Historical data file not found''),
                         (''status'', JStr ''error'')],
         status_code = 404\<rparr>"
    by (auto simp: get_historical_data_def get_historical_data_try_def jsonify_def envelope_def)
next
  fix city f historical_data
  assume "map_of (args req) ''city'' = Some city \<and> city \<noteq> []
       \<and> data_file env = Some f \<and> path_exists env f
       \<and> read_csv env f = Inr historical_data
       \<and> filter (\<lambda>r. h_city r = city) historical_data = []"
  then show "get_historical_data env req =
        \<lparr>body = JObject [(''error'', JStr ''Data not found''),
                         (''message'', JStr (''No historical data available for '' @ city)),
                         (''status'', JStr ''error'')],
         status_code = 404\<rparr>"
    by (simp add: get_historical_data_def get_historical_data_try_def jsonify_def envelope_def)
next
  assume "status_code (get_historical_data env req) = 200"
  then show "\<exists>city f historical_data.
         map_of (args req) ''city'' = Some city \<and> city \<noteq> []
         \<and> data_file env = Some f \<and> path_exists env f
         \<and> read_csv env f = Inr historical_data
         \<and> filter (\<lambda>r. h_city r = city) historical_data \<noteq> []
         \<and> body (get_historical_data env req) =
             JObject
               [(''city'', JStr city),
                (''historical_data'',
                 JArray (formatted_data (filter (\<lambda>r. h_city r = city) historical_data))),
                (''status'', JStr ''success'')]"
    by (auto simp: get_historical_data_def get_historical_data_try_def jsonify_def Let_def
        split: option.splits if_splits sum.splits)
qed

theorem historical_checks_in_order_witness:
  "map_of (args (get [])) ''city'' = None
   \<and> get_historical_data sample_env (get []) =
        \<lparr>body = JObject [(''error'', JStr ''Missing parameter''),
                         (''message'', JStr ''City parameter is required''),
                         (''status'', JStr ''error'')],
         status_code = 400\<rparr>
   \<and> map_of (args (get [(''city'', ''X'')])) ''city'' = Some ''X'' \<and> ''X'' \<noteq> []
   \<and> data_file (sample_env\<lparr>data_file := None\<rparr>) = None
   \<and> get_historical_data (sample_env\<lparr>data_file := None\<rparr>) (get [(''city'', ''X'')]) =
        \<lparr>body = JObject [(''error'', JStr ''Data not available''),
                         (''message'', JStr ''Historical data file not found''),
                         (''status'', JStr ''error'')],
         status_code = 404\<rparr>
   \<and> map_of (args (get [(''city'', ''Unknown'')])) ''city'' = Some ''Unknown'' \<and> ''Unknown'' \<noteq> []
   \<and> data_file sample_env = Some ''historical.csv'' \<and> path_exists sample_env ''historical.csv''
   \<and> read_csv sample_env ''historical.csv'' = Inr sample_dataset
   \<and> filter (\<lambda>r. h_city r = ''Unknown'') sample_dataset = []
   \<and> get_historical_data sample_env (get [(''city'', ''Unknown'')]) =
        \<lparr>body = JObject [(''error'', JStr ''Data not found''),
                         (''message'', JStr ''No historical data available for Unknown''),
                         (''status'', JStr ''error'')],
         status_code = 404\<rparr>
   \<and> status_code (get_historical_data sample_env (get [(''city'', ''X'')])) = 200
   \<and> body (get_historical_data sample_env (get [(''city'', ''X'')])) =
        JObject
          [(''city'', JStr ''X''),
           (''historical_data'',
            JArray (formatted_data (filter (\<lambda>r. h_city r = ''X'') sample_dataset))),
           (''status'', JStr ''success'')]"
proof -
  have a1: "map_of (args (get [])) ''city'' = None" by (simp add: get_def)
  have b1: "map_of (args (get [(''city'', ''X'')])) ''city'' = Some ''X''" by (simp add: get_def)
  have b2: "''X'' \<noteq> []" by simp
  have b3: "data_file (sample_env\<lparr>data_file := None\<rparr>) = None" by simp
  have c1: "map_of (args (get [(''city'', ''Unknown'')])) ''city'' = Some ''Unknown''"
    by (simp add: get_def)
  have c2: "''Unknown'' \<noteq> []" by simp
  have c3: "filter (\<lambda>r. h_city r = ''Unknown'') sample_dataset = []"
    by (simp add: sample_dataset_def sample_record_def)
  have xne: "filter (\<lambda>r. h_city r = ''X'') sample_dataset \<noteq> []"
    by (simp add: sample_city_data_X)
  have d1: "status_code (get_historical_data sample_env (get [(''city'', ''X'')])) = 200"
    by (simp add: historical_success [OF b1 b2 sample_env_fields xne] jsonify_def)
  note w0 = historical_checks_in_order [of "get []" sample_env, THEN conjunct1]
  note w1 = historical_checks_in_order
    [of "get [(''city'', ''X'')]" "sample_env\<lparr>data_file := None\<rparr>", THEN conjunct2, THEN conjunct1]
  note w2 = historical_checks_in_order
    [of "get [(''city'', ''Unknown'')]" sample_env, THEN conjunct2, THEN conjunct2, THEN conjunct1]
  note w3 = historical_checks_in_order
    [of "get [(''city'', ''X'')]" sample_env, THEN conjunct2, THEN conjunct2, THEN conjunct2]
  from w0 a1 have a: "get_historical_data sample_env (get []) =
        \<lparr>body = JObject [(''error'', JStr ''Missing parameter''),
                         (''message'', JStr ''City parameter is required''),
                         (''status'', JStr ''error'')],
         status_code = 400\<rparr>"
    by simp
  from w1 [rule_format, of "''X''"] b1 b2 b3
  have b: "get_historical_data (sample_env\<lparr>data_file := None\<rparr>) (get [(''city'', ''X'')]) =
        \<lparr>body = JObject [(''error'', JStr ''Data not available''),
                         (''message'', JStr ''Historical data file not found''),
                         (''status'', JStr ''error'')],
         status_code = 404\<rparr>"
    by simp
  from w2 [rule_format, of "''Unknown''" "''historical.csv''" sample_dataset]
    c1 c2 c3 sample_env_fields
  have c: "get_historical_data sample_env (get [(''city'', ''Unknown'')]) =
        \<lparr>body = JObject [(''error'', JStr ''Data not found''),
                         (''message'', JStr ''No historical data available for Unknown''),
                         (''status'', JStr ''error'')],
         status_code = 404\<rparr>"
    by simp
  from w3 [THEN mp, OF d1] have "\<exists>city f historical_data.
         map_of (args (get [(''city'', ''X'')])) ''city'' = Some city \<and> city \<noteq> []
         \<and> data_file sample_env = Some f \<and> path_exists sample_env f
         \<and> read_csv sample_env f = Inr historical_data
         \<and> filter (\<lambda>r. h_city r = city) historical_data \<noteq> []
         \<and> body (get_historical_data sample_env (get [(''city'', ''X'')])) =
             JObject
               [(''city'', JStr city),
                (''historical_data'',
                 JArray (formatted_data (filter (\<lambda>r. h_city r = city) historical_data))),
                (''status'', JStr ''success'')]" .
  then obtain city f historical_data where
    e1: "map_of (args (get [(''city'', ''X'')])) ''city'' = Some city"
    and e2: "data_file sample_env = Some f"
    and e3: "read_csv sample_env f = Inr historical_data"
    and e4: "body (get_historical_data sample_env (get [(''city'', ''X'')])) =
             JObject
               [(''city'', JStr city),
                (''historical_data'',
                 JArray (formatted_data (filter (\<lambda>r. h_city r = city) historical_data))),
                (''status'', JStr ''success'')]"
    by (elim exE conjE) (rule that, assumption+)
  from e1 b1 have "city = ''X''" by simp
  moreover from e2 sample_env_fields(1) have "f = ''historical.csv''" by simp
  moreover from this e3 sample_env_fields(3) have "historical_data = sample_dataset" by simp
  ultimately have d: "body (get_historical_data sample_env (get [(''city'', ''X'')])) =
        JObject
          [(''city'', JStr ''X''),
           (''historical_data'',
            JArray (formatted_data (filter (\<lambda>r. h_city r = ''X'') sample_dataset))),
           (''status'', JStr ''success'')]"
    using e4 by simp
  show ?thesis
    by (intro conjI) (rule a1 a b1 b2 b3 b c1 c2 c3 c d1 d sample_env_fields)+
qed

text \<open>
  C7. For a year present among the city's records, the summary of that year is one of
  the entries of the response, its group of records is not empty, and it holds the year
  as an integer, the maximum, the minimum and the arithmetic mean of the
  \<^verbatim>\<open>temperature_2m_max\<close> column as floats, the sum of the \<^verbatim>\<open>is_heatwave\<close> column as an
  integer, the sum of the precipitation and the mean of the humidity as floats. Where
  the flags are 0 or 1, their sum is the number of heatwave days. (Floats are the reals
  they denote: the mean is exact here, the rounding of the machine is not modelled.)
\<close>

theorem year_summary_aggregates:
  assumes "year \<in> set (map h_year city_data)"
    and "year_data = filter (\<lambda>r. h_year r = year) city_data"
  shows "year_summary city_data year \<in> set (formatted_data city_data)
       \<and> year_data \<noteq> []
       \<and> year_summary city_data year =
           JObject
             [(''year'', JInt year),
              (''max_temp'', JFloat (Max (set (map h_temperature_2m_max year_data)))),
              (''min_temp'', JFloat (Min (set (map h_temperature_2m_max year_data)))),
              (''avg_temp'',
               JFloat (sum_list (map h_temperature_2m_max year_data) / real (length year_data))),
              (''heatwave_days'', JInt (sum_list (map h_is_heatwave year_data))),
              (''precipitation'', JFloat (sum_list (map h_precipitation_sum year_data))),
              (''humidity'',
               JFloat (sum_list (map h_relative_humidity_2m_mean year_data)
                         / real (length year_data)))]
       \<and> ((\<forall>r \<in> set year_data. h_is_heatwave r \<in> {0, 1}) \<longrightarrow>
            sum_list (map h_is_heatwave year_data)
              = int (length (filter (\<lambda>r. h_is_heatwave r = 1) year_data)))"
proof -
  from assms(1) have "year \<in> set (unique (map h_year city_data))"
    by (simp only: set_unique)
  then have a: "year_summary city_data year \<in> set (formatted_data city_data)"
    by (simp add: formatted_data_def)
  from assms obtain r where "r \<in> set city_data" "h_year r = year" by auto
  with assms(2) have "r \<in> set year_data" by simp
  then have ne: "year_data \<noteq> []" by auto
  then have ne': "map h_temperature_2m_max year_data \<noteq> []"
    "map h_relative_humidity_2m_mean year_data \<noteq> []" by simp_all
  have b: "year_summary city_data year =
           JObject
             [(''year'', JInt year),
              (''max_temp'', JFloat (Max (set (map h_temperature_2m_max year_data)))),
              (''min_temp'', JFloat (Min (set (map h_temperature_2m_max year_data)))),
              (''avg_temp'',
               JFloat (sum_list (map h_temperature_2m_max year_data) / real (length year_data))),
              (''heatwave_days'', JInt (sum_list (map h_is_heatwave year_data))),
              (''precipitation'', JFloat (sum_list (map h_precipitation_sum year_data))),
              (''humidity'',
               JFloat (sum_list (map h_relative_humidity_2m_mean year_data)
                         / real (length year_data)))]"
    unfolding year_summary_def Let_def assms(2) [symmetric]
    using ne by (simp add: col_max_Max [OF ne'(1)] col_min_Min [OF ne'(1)] col_mean_def)
  have c: "(\<forall>r \<in> set year_data. h_is_heatwave r \<in> {0, 1}) \<longrightarrow>
            sum_list (map h_is_heatwave year_data)
              = int (length (filter (\<lambda>r. h_is_heatwave r = 1) year_data))"
    by (intro impI sum_flags_count)
  show ?thesis
    by (intro conjI) (rule a ne b c)+
qed

theorem year_summary_aggregates_witness:
  "2020 \<in> set (map h_year (filter (\<lambda>r. h_city r = ''X'') sample_dataset))
   \<and> map h_temperature_2m_max
        (filter (\<lambda>r. h_year r = 2020) (filter (\<lambda>r. h_city r = ''X'') sample_dataset))
       = [30, 35, 32]
   \<and> map h_is_heatwave
        (filter (\<lambda>r. h_year r = 2020) (filter (\<lambda>r. h_city r = ''X'') sample_dataset))
       = [0, 1, 0]
   \<and> year_summary (filter (\<lambda>r. h_city r = ''X'') sample_dataset) 2020
       \<in> set (formatted_data (filter (\<lambda>r. h_city r = ''X'') sample_dataset))
   \<and> year_summary (filter (\<lambda>r. h_city r = ''X'') sample_dataset) 2020 =
       JObject
         [(''year'', JInt 2020), (''max_temp'', JFloat 35), (''min_temp'', JFloat 30),
          (''avg_temp'', JFloat (97 / 3)), (''heatwave_days'', JInt 1),
          (''precipitation'', JFloat 4.5), (''humidity'', JFloat 40)]
   \<and> \<bar>(97 / 3 :: real) - 32.33\<bar> < 0.01
   \<and> length (filter (\<lambda>r. h_is_heatwave r = 1)
        (filter (\<lambda>r. h_year r = 2020) (filter (\<lambda>r. h_city r = ''X'') sample_dataset))) = 1"
proof -
  let ?cd = "filter (\<lambda>r. h_city r = ''X'') sample_dataset"
  let ?yd = "filter (\<lambda>r. h_year r = 2020) ?cd"
  have y: "2020 \<in> set (map h_year ?cd)"
    by (simp add: sample_city_data_X sample_record_def)
  have t: "map h_temperature_2m_max ?yd = [30, 35, 32]"
    by (simp only: sample_year_data_X_2020) (simp add: sample_record_def)
  have f: "map h_is_heatwave ?yd = [0, 1, 0]"
    by (simp only: sample_year_data_X_2020) (simp add: sample_record_def)
  have p: "map h_precipitation_sum ?yd = [1.5, 1.5, 1.5]"
    by (simp only: sample_year_data_X_2020) (simp add: sample_record_def)
  have h: "map h_relative_humidity_2m_mean ?yd = [40, 40, 40]"
    by (simp only: sample_year_data_X_2020) (simp add: sample_record_def)
  have l: "length ?yd = 3"
    by (simp only: sample_year_data_X_2020) simp
  have fl: "\<forall>r \<in> set ?yd. h_is_heatwave r \<in> {0, 1}"
    by (simp only: sample_year_data_X_2020) (simp add: sample_record_def)
  note w = year_summary_aggregates [OF y refl]
  from w have a: "year_summary ?cd 2020 \<in> set (formatted_data ?cd)"
    by (elim conjE)
  from w have "year_summary ?cd 2020 =
           JObject
             [(''year'', JInt 2020),
              (''max_temp'', JFloat (Max (set (map h_temperature_2m_max ?yd)))),
              (''min_temp'', JFloat (Min (set (map h_temperature_2m_max ?yd)))),
              (''avg_temp'',
               JFloat (sum_list (map h_temperature_2m_max ?yd) / real (length ?yd))),
              (''heatwave_days'', JInt (sum_list (map h_is_heatwave ?yd))),
              (''precipitation'', JFloat (sum_list (map h_precipitation_sum ?yd))),
              (''humidity'',
               JFloat (sum_list (map h_relative_humidity_2m_mean ?yd)
                         / real (length ?yd)))]"
    by (elim conjE)
  then have b: "year_summary ?cd 2020 =
       JObject
         [(''year'', JInt 2020), (''max_temp'', JFloat 35), (''min_temp'', JFloat 30),
          (''avg_temp'', JFloat (97 / 3)), (''heatwave_days'', JInt 1),
          (''precipitation'', JFloat 4.5), (''humidity'', JFloat 40)]"
    by (simp only: t f p h l) simp
  from w fl have "sum_list (map h_is_heatwave ?yd) = int (length (filter (\<lambda>r. h_is_heatwave r = 1) ?yd))"
    by (elim conjE impE)
  then have c: "length (filter (\<lambda>r. h_is_heatwave r = 1) ?yd) = 1"
    by (simp only: f) simp
  have d: "\<bar>(97 / 3 :: real) - 32.33\<bar> < 0.01" by simp
  show ?thesis
    by (intro conjI) (rule y t f a b c d)+
qed

text \<open>
  C8, as the code has it. The entries of a successful response list each year of the
  city's records once, in the order in which the years first occur among those records
  (\<^verbatim>\<open>unique()\<close> does not sort); they are in strictly ascending order whenever the
  city's records are in ascending order of year.
\<close>

theorem years_in_order_of_first_appearance:
  assumes "map_of (args req) ''city'' = Some city" and "city \<noteq> []"
    and "data_file env = Some f" and "path_exists env f"
    and "read_csv env f = Inr historical_data"
    and "city_data = filter (\<lambda>r. h_city r = city) historical_data"
    and "city_data \<noteq> []"
  shows "\<exists>entries years.
           get_historical_data env req =
             \<lparr>body = JObject [(''city'', JStr city),
                              (''historical_data'', JArray entries),
                              (''status'', JStr ''success'')],
              status_code = 200\<rparr>
         \<and> map (\<lambda>e. getitem e ''year'') entries = map (\<lambda>y. Inr (JInt y)) years
         \<and> years = rev (remdups (rev (map h_year city_data)))
         \<and> (sorted (map h_year city_data) \<longrightarrow> sorted_wrt (<) years)"
proof -
  let ?years = "unique (map h_year city_data)"
  have r: "get_historical_data env req =
             \<lparr>body = JObject [(''city'', JStr city),
                              (''historical_data'', JArray (formatted_data city_data)),
                              (''status'', JStr ''success'')],
              status_code = 200\<rparr>"
    using historical_success [OF assms(1-5)] assms(6,7) by (simp add: jsonify_def)
  have m: "map (\<lambda>e. getitem e ''year'') (formatted_data city_data) = map (\<lambda>y. Inr (JInt y)) ?years"
    by (simp add: formatted_data_def getitem_year_summary o_def)
  have u: "?years = rev (remdups (rev (map h_year city_data)))"
    by (rule unique_remdups)
  have s: "sorted (map h_year city_data) \<longrightarrow> sorted_wrt (<) ?years"
    by (simp add: strict_sorted_unique)
  from r m u s show ?thesis by blast
qed

theorem years_in_order_of_first_appearance_witness:
  "map_of (args (get [(''city'', ''X'')])) ''city'' = Some ''X'' \<and> ''X'' \<noteq> []
   \<and> data_file sample_env = Some ''historical.csv'' \<and> path_exists sample_env ''historical.csv''
   \<and> read_csv sample_env ''historical.csv'' = Inr sample_dataset
   \<and> filter (\<lambda>r. h_city r = ''X'') sample_dataset \<noteq> []
   \<and> sorted (map h_year (filter (\<lambda>r. h_city r = ''X'') sample_dataset))
   \<and> (\<exists>entries.
         get_historical_data sample_env (get [(''city'', ''X'')]) =
             \<lparr>body = JObject [(''city'', JStr ''X''),
                              (''historical_data'', JArray entries),
                              (''status'', JStr ''success'')],
              status_code = 200\<rparr>
         \<and> map (\<lambda>e. getitem e ''year'') entries = [Inr (JInt 2020), Inr (JInt 2021)])
   \<and> sorted_wrt (<) [2020, 2021 :: int]"
proof -
  have a: "map_of (args (get [(''city'', ''X'')])) ''city'' = Some ''X''" by (simp add: get_def)
  have b: "''X'' \<noteq> []" by simp
  have ne: "filter (\<lambda>r. h_city r = ''X'') sample_dataset \<noteq> []"
    by (simp add: sample_city_data_X)
  have ys: "map h_year (filter (\<lambda>r. h_city r = ''X'') sample_dataset) = [2020, 2020, 2020, 2021]"
    by (simp add: sample_city_data_X sample_record_def)
  have so: "sorted (map h_year (filter (\<lambda>r. h_city r = ''X'') sample_dataset))"
    by (simp add: ys)
  from years_in_order_of_first_appearance
         [OF a b sample_env_fields(1) sample_env_fields(2) sample_env_fields(3) refl ne]
  obtain entries years where
    r: "get_historical_data sample_env (get [(''city'', ''X'')]) =
             \<lparr>body = JObject [(''city'', JStr ''X''),
                              (''historical_data'', JArray entries),
                              (''status'', JStr ''success'')],
              status_code = 200\<rparr>"
    and m: "map (\<lambda>e. getitem e ''year'') entries = map (\<lambda>y. Inr (JInt y)) years"
    and y: "years = rev (remdups (rev (map h_year (filter (\<lambda>r. h_city r = ''X'') sample_dataset))))"
    and s: "sorted (map h_year (filter (\<lambda>r. h_city r = ''X'') sample_dataset)) \<longrightarrow> sorted_wrt (<) years"
    by (elim exE conjE) (rule that, assumption+)
  from y have y': "years = [2020, 2021]" by (simp add: ys)
  from s so y' have s': "sorted_wrt (<) [2020, 2021 :: int]" by simp
  from m y' have m': "map (\<lambda>e. getitem e ''year'') entries = [Inr (JInt 2020), Inr (JInt 2021)]"
    by simp
  from r m' have e: "\<exists>entries.
         get_historical_data sample_env (get [(''city'', ''X'')]) =
             \<lparr>body = JObject [(''city'', JStr ''X''),
                              (''historical_data'', JArray entries),
                              (''status'', JStr ''success'')],
              status_code = 200\<rparr>
         \<and> map (\<lambda>e. getitem e ''year'') entries = [Inr (JInt 2020), Inr (JInt 2021)]"
    by (intro exI [of _ entries] conjI)
  show ?thesis
    by (intro conjI) (rule a b ne so s' e sample_env_fields)+
qed

text \<open>
  C8 as stated fails on the sample data: the records of city \<^verbatim>\<open>Y\<close> have the year 2021
  before the year 2020, and so has the response.
\<close>

theorem years_not_ascending:
  "get_historical_data sample_env (get [(''city'', ''Y'')]) =
     \<lparr>body = JObject
        [(''city'', JStr ''Y''),
         (''historical_data'',
          JArray
           [JObject
             [(''year'', JInt 2021), (''max_temp'', JFloat 25),
              (''min_temp'', JFloat 25), (''avg_temp'', JFloat 25),
              (''heatwave_days'', JInt 0), (''precipitation'', JFloat 1.5),
              (''humidity'', JFloat 40)],
            JObject
             [(''year'', JInt 2020), (''max_temp'', JFloat 20),
              (''min_temp'', JFloat 20), (''avg_temp'', JFloat 20),
              (''heatwave_days'', JInt 0), (''precipitation'', JFloat 1.5),
              (''humidity'', JFloat 40)]]),
         (''status'', JStr ''success'')],
       status_code = 200\<rparr>"
  by (simp add: get_historical_data_def get_historical_data_try_def get_def sample_env_def
      sample_dataset_def sample_record_def formatted_data_def unique_def year_summary_def
      col_mean_def jsonify_def Let_def)

section \<open>\<^verbatim>\<open>POST /heatwave\<close>: the forecast response\<close>



lemma object_with_city:
  assumes "map_of kvs ''city'' = Some c"
  shows "truthy (JObject kvs)" and "contains ''city'' (JObject kvs) = Inr True"
    and "getitem (JObject kvs) ''city'' = Inr c"
proof -
  from assms show "truthy (JObject kvs)" by auto
  from assms have "''city'' \<in> fst ` set kvs"
    by (metis domI dom_map_of_conv_image_fst)
  then show "contains ''city'' (JObject kvs) = Inr True" by simp
  from assms show "getitem (JObject kvs) ''city'' = Inr c" by simp
qed

lemma try_after_validation:
  assumes "data req \<noteq> []" and "get_json env req = Inr (JObject kvs)"
    and "map_of kvs ''city'' = Some city"
  shows "predict_heatwave_try env req =
           (case model_predict_heatwave env city of
              Inl e \<Rightarrow> (Inl e, [city])
            | Inr forecast \<Rightarrow>
                (case format_rows env forecast of
                   Inl e \<Rightarrow> (Inl e, [city])
                 | Inr predictions \<Rightarrow>
                     (Inr (jsonify
                        (JObject
                           [(''city'', city),
                            (''predictions'', JArray predictions),
                            (''message'', JStr ''Forecast generated successfully''),
                            (''status'', JStr ''success'')])
                        200),
                      [city])))"
  using assms(1,2) object_with_city [OF assms(3)]
  by (simp add: predict_heatwave_try_def)


lemma model_exception_500:
  assumes "data req \<noteq> []" and "get_json env req = Inr (JObject kvs)"
    and "map_of kvs ''city'' = Some city"
    and "model_predict_heatwave env city = Inl e"
  shows "predict_heatwave_try env req = (Inl e, [city])"
  using assms(4) by (simp add: try_after_validation [OF assms(1-3)])

lemma formatter_exception_500:
  assumes "data req \<noteq> []" and "get_json env req = Inr (JObject kvs)"
    and "map_of kvs ''city'' = Some city"
    and "model_predict_heatwave env city = Inr rows"
    and "format_rows env rows = Inl e"
  shows "predict_heatwave_try env req = (Inl e, [city])"
  using assms(4,5) by (simp add: try_after_validation [OF assms(1-3)])


lemma sample_request_Phoenix:
  "data (post ''{\"city\": \"Phoenix\"}'') \<noteq> []"
  "get_json sample_env (post ''{\"city\": \"Phoenix\"}'') = Inr (JObject [(''city'', JStr ''Phoenix'')])"
  "map_of [(''city'', JStr ''Phoenix'')] ''city'' = Some (JStr ''Phoenix'')"
  "model_predict_heatwave sample_env (JStr ''Phoenix'') = Inr sample_forecast"
proof -
  show "data (post ''{\"city\": \"Phoenix\"}'') \<noteq> []"
    by (simp add: post_def)
  show "get_json sample_env (post ''{\"city\": \"Phoenix\"}'') = Inr (JObject [(''city'', JStr ''Phoenix'')])"
    by (simp add: sample_get_json sample_loads_values)
  show "map_of [(''city'', JStr ''Phoenix'')] ''city'' = Some (JStr ''Phoenix'')"
    by simp
  show "model_predict_heatwave sample_env (JStr ''Phoenix'') = Inr sample_forecast"
    by (simp add: sample_env_def sample_model_def)
qed




lemma show_digits_10_30: "show_digits (10 ^ 30) = ''1000000000000000000000000000000''"
  by code_simp

text \<open>
  C4. The text branch converts with \<^verbatim>\<open>errors='coerce'\<close>, and a text that cannot be parsed
  gives a prediction dated \<^verbatim>\<open>N/A\<close>. The branch for the values that are neither text nor
  native calls \<^verbatim>\<open>pd.to_datetime(v, unit='ns')\<close> without it: for a value the conversion
  refuses (here a count of nanoseconds of thirty-one digits) the exception reaches the outer handler, and the whole
  request is answered with status 500 instead of a prediction dated \<^verbatim>\<open>N/A\<close>.
\<close>

theorem unparseable_number_fails_request:
  "format_row unparseable_env (sample_row (Value (JStr ''someday''))) = Inr (sample_prediction ''N/A'')
   \<and> model_predict_heatwave unparseable_env (JStr ''Phoenix'') =
        Inr [sample_row (Value (JInt (10 ^ 30)))]
   \<and> to_datetime_ns unparseable_env (JInt (10 ^ 30)) =
        Inl (Exn OutOfBoundsDatetime
              (''cannot convert input 1000000000000000000000000000000 with the unit ''
               @ quoted ''ns''))
   \<and> predict_heatwave unparseable_env (post ''{\"city\": \"Phoenix\"}'') =
        (\<lparr>body = JObject
            [(''error'',
              JStr (''cannot convert input 1000000000000000000000000000000 with the unit ''
                    @ quoted ''ns'')),
             (''message'', JStr ''Failed to process your request''),
             (''status'', JStr ''error'')],
          status_code = 500\<rparr>, [JStr ''Phoenix''])"
proof -
  let ?e = "Exn OutOfBoundsDatetime
              (''cannot convert input 1000000000000000000000000000000 with the unit ''
               @ quoted ''ns'')"
  have n: "\<bar>10 ^ 30 :: int\<bar> = 10 ^ 30"
    by simp
  have t: "format_row unparseable_env (sample_row (Value (JStr ''someday''))) =
             Inr (sample_prediction ''N/A'')"
    by (simp add: format_row_def sample_row_def sample_prediction_def unparseable_env_def
        sample_env_def sample_to_datetime_coerce_def)
  have m: "model_predict_heatwave unparseable_env (JStr ''Phoenix'') =
             Inr [sample_row (Value (JInt (10 ^ 30)))]"
    by (simp add: unparseable_env_def)
  have "sample_to_datetime_ns (JInt (10 ^ 30)) = Inl ?e"
    unfolding sample_to_datetime_ns_def by (simp only: json.case n show_digits_10_30) simp
  then have c: "to_datetime_ns unparseable_env (JInt (10 ^ 30)) = Inl ?e"
    by (simp add: unparseable_env_def sample_env_def)
  have g: "get_json unparseable_env (post ''{\"city\": \"Phoenix\"}'') =
             Inr (JObject [(''city'', JStr ''Phoenix'')])"
    by (simp add: get_json_def unparseable_env_def sample_env_def post_def sample_loads_values)
  have "format_row unparseable_env (sample_row (Value (JInt (10 ^ 30)))) = Inl ?e"
    using c by (simp add: format_row_def sample_row_def del: One_nat_def)
  then have f: "format_rows unparseable_env [sample_row (Value (JInt (10 ^ 30)))] = Inl ?e"
    by simp
  from formatter_exception_500 [OF sample_request_Phoenix(1) g sample_request_Phoenix(3) m f]
  have r: "predict_heatwave unparseable_env (post ''{\"city\": \"Phoenix\"}'') =
        (\<lparr>body = JObject
            [(''error'',
              JStr (''cannot convert input 1000000000000000000000000000000 with the unit ''
                    @ quoted ''ns'')),
             (''message'', JStr ''Failed to process your request''),
             (''status'', JStr ''error'')],
          status_code = 500\<rparr>, [JStr ''Phoenix''])"
    by (simp add: predict_heatwave_def jsonify_def envelope_def)
  show ?thesis
    by (intro conjI) (rule t m c r)+
qed

section \<open>The error envelope of both routes\<close>

lemma try_cases:
  "predict_heatwave_try env req =
     (Inr (jsonify (envelope ''Empty request body'' ''Request must contain JSON data'') 400), [])
   \<and> data req = []
   \<or> predict_heatwave_try env req = (Inr missing_parameter, [])
     \<and> data req \<noteq> []
     \<and> (\<exists>d. get_json env req = Inr d \<and> (\<not> truthy d \<or> contains ''city'' d = Inr False))
   \<or> (\<exists>e calls. predict_heatwave_try env req = (Inl e, calls))
     \<and> data req \<noteq> []
     \<and> \<not> (\<exists>d. get_json env req = Inr d \<and> (\<not> truthy d \<or> contains ''city'' d = Inr False))
   \<or> (\<exists>city ps. predict_heatwave_try env req =
         (Inr (jsonify
            (JObject
               [(''city'', city),
                (''predictions'', JArray ps),
                (''message'', JStr ''Forecast generated successfully''),
                (''status'', JStr ''success'')])
            200), [city]))
     \<and> data req \<noteq> []
     \<and> \<not> (\<exists>d. get_json env req = Inr d \<and> (\<not> truthy d \<or> contains ''city'' d = Inr False))"
proof (cases "data req = []")
  case True
  then show ?thesis by (simp add: predict_heatwave_try_def)
next
  case False
  show ?thesis
  proof (cases "get_json env req")
    case (Inl e)
    with False get_json_never_decode_error [OF Inl] show ?thesis
      by (simp add: predict_heatwave_try_def)
  next
    case (Inr d)
    with False show ?thesis
      by (auto simp: predict_heatwave_try_def split: sum.splits)
  qed
qed

lemma post_status_codes:
  "status_code (fst (predict_heatwave env req)) \<in> {200, 400, 500}"
  using try_cases [of env req]
  by (auto simp: predict_heatwave_def jsonify_def missing_parameter_def)

lemma post_error_shape:
  "status_code (fst (predict_heatwave env req)) \<noteq> 200 \<Longrightarrow>
     \<exists>e m. body (fst (predict_heatwave env req)) =
       JObject [(''error'', JStr e), (''message'', JStr m), (''status'', JStr ''error'')]"
  using try_cases [of env req]
  by (auto simp: predict_heatwave_def jsonify_def missing_parameter_def envelope_def)

lemma post_400_iff:
  "status_code (fst (predict_heatwave env req)) = 400 \<longleftrightarrow>
     data req = []
     \<or> (\<exists>d. get_json env req = Inr d \<and> (\<not> truthy d \<or> contains ''city'' d = Inr False))"
  using try_cases [of env req]
  by (auto simp: predict_heatwave_def jsonify_def missing_parameter_def)

lemma post_500_iff:
  "status_code (fst (predict_heatwave env req)) = 500 \<longleftrightarrow>
     (\<exists>e calls. predict_heatwave_try env req = (Inl e, calls))"
  using try_cases [of env req]
  by (auto simp: predict_heatwave_def jsonify_def missing_parameter_def)

lemma post_exception_verbatim:
  "predict_heatwave_try env req = (Inl e, calls) \<Longrightarrow>
     fst (predict_heatwave env req) =
       \<lparr>body = JObject [(''error'', JStr (str e)),
                        (''message'', JStr ''Failed to process your request''),
                        (''status'', JStr ''error'')],
        status_code = 500\<rparr>"
  by (simp add: predict_heatwave_def jsonify_def envelope_def)

lemma try_historical_cases:
  "get_historical_data_try env req =
       Inr (jsonify (envelope ''Missing parameter'' ''City parameter is required'') 400)
     \<and> (map_of (args req) ''city'' = None \<or> map_of (args req) ''city'' = Some [])
   \<or> (\<exists>city. map_of (args req) ''city'' = Some city \<and> city \<noteq> []
        \<and> (get_historical_data_try env req =
              Inr (jsonify (envelope ''Data not available'' ''Historical data file not found'') 404)
            \<and> (data_file env = None \<or> (\<exists>f. data_file env = Some f \<and> \<not> path_exists env f))
           \<or> (\<exists>f. data_file env = Some f \<and> path_exists env f
                \<and> ((\<exists>e. read_csv env f = Inl e \<and> get_historical_data_try env req = Inl e)
                   \<or> (\<exists>historical_data. read_csv env f = Inr historical_data
                        \<and> (filter (\<lambda>r. h_city r = city) historical_data = []
                             \<and> get_historical_data_try env req =
                                 Inr (jsonify
                                   (envelope ''Data not found''
                                      (''No historical data available for '' @ city)) 404)
                            \<or> filter (\<lambda>r. h_city r = city) historical_data \<noteq> []
                             \<and> get_historical_data_try env req =
                                 Inr (jsonify
                                   (JObject
                                      [(''city'', JStr city),
                                       (''historical_data'',
                                        JArray (formatted_data
                                          (filter (\<lambda>r. h_city r = city) historical_data))),
                                       (''status'', JStr ''success'')])
                                   200)))))))"
  by (auto simp: get_historical_data_try_def Let_def split: option.splits sum.splits)

lemma get_status_codes:
  "status_code (get_historical_data env req) \<in> {200, 400, 404, 500}"
  using try_historical_cases [of env req]
  by (auto simp: get_historical_data_def jsonify_def)

lemma get_error_shape:
  "status_code (get_historical_data env req) \<noteq> 200 \<Longrightarrow>
     \<exists>e m. body (get_historical_data env req) =
       JObject [(''error'', JStr e), (''message'', JStr m), (''status'', JStr ''error'')]"
  using try_historical_cases [of env req]
  by (auto simp: get_historical_data_def jsonify_def envelope_def)

lemma get_400_iff:
  "status_code (get_historical_data env req) = 400 \<longleftrightarrow>
     map_of (args req) ''city'' = None \<or> map_of (args req) ''city'' = Some []"
  using try_historical_cases [of env req]
  by (auto simp: get_historical_data_def jsonify_def)

lemma get_404_iff:
  "status_code (get_historical_data env req) = 404 \<longleftrightarrow>
     (\<exists>city. map_of (args req) ''city'' = Some city \<and> city \<noteq> []
        \<and> (data_file env = None
           \<or> (\<exists>f. data_file env = Some f
                \<and> (\<not> path_exists env f
                   \<or> (\<exists>historical_data. read_csv env f = Inr historical_data
                        \<and> filter (\<lambda>r. h_city r = city) historical_data = [])))))"
  using try_historical_cases [of env req]
  by (auto simp: get_historical_data_def jsonify_def)

lemma get_500_iff:
  "status_code (get_historical_data env req) = 500 \<longleftrightarrow>
     (\<exists>e. get_historical_data_try env req = Inl e)"
  using try_historical_cases [of env req]
  by (auto simp: get_historical_data_def jsonify_def)

lemma get_exception_verbatim:
  "get_historical_data_try env req = Inl e \<Longrightarrow>
     get_historical_data env req =
       \<lparr>body = JObject [(''error'', JStr (str e)),
                        (''message'', JStr ''Failed to fetch historical data''),
                        (''status'', JStr ''error'')],
        status_code = 500\<rparr>"
  by (simp add: get_historical_data_def jsonify_def envelope_def)

lemma read_csv_exception:
  "map_of (args req) ''city'' = Some city \<Longrightarrow> city \<noteq> [] \<Longrightarrow> data_file env = Some f \<Longrightarrow>
   path_exists env f \<Longrightarrow> read_csv env f = Inl e \<Longrightarrow>
     get_historical_data_try env req = Inl e"
  by (simp add: get_historical_data_try_def)

text \<open>
  What holds of both routes: the status is 200, 400 or 500 for \<^verbatim>\<open>POST /heatwave\<close> and
  200, 400, 404 or 500 for \<^verbatim>\<open>GET /api/historical\<close>; a response whose status is not 200
  has a body of exactly the three keys \<^verbatim>\<open>error\<close>, \<^verbatim>\<open>message\<close>, \<^verbatim>\<open>status\<close>, with
  \<^verbatim>\<open>status\<close> the text \<^verbatim>\<open>error\<close>; 400 is given exactly where a guard of the handler
  rejects the input, 404 exactly where the data file or the city's records are missing,
  500 exactly where an exception reaches the outer handler, with the text of the
  exception as \<^verbatim>\<open>error\<close>; and the exceptions of the model, of the formatting of the
  rows and of the reading of the data file do reach it.
\<close>

lemma status_and_envelope:
  "status_code (fst (predict_heatwave env req)) \<in> {200, 400, 500}
 \<and> (status_code (fst (predict_heatwave env req)) \<noteq> 200 \<longrightarrow>
      (\<exists>e m. body (fst (predict_heatwave env req)) =
         JObject [(''error'', JStr e), (''message'', JStr m), (''status'', JStr ''error'')]))
 \<and> (status_code (fst (predict_heatwave env req)) = 400 \<longleftrightarrow>
      data req = []
      \<or> (\<exists>d. get_json env req = Inr d \<and> (\<not> truthy d \<or> contains ''city'' d = Inr False)))
 \<and> (status_code (fst (predict_heatwave env req)) = 500 \<longleftrightarrow>
      (\<exists>e calls. predict_heatwave_try env req = (Inl e, calls)))
 \<and> (\<forall>e calls. predict_heatwave_try env req = (Inl e, calls) \<longrightarrow>
      fst (predict_heatwave env req) =
        \<lparr>body = JObject [(''error'', JStr (str e)),
                         (''message'', JStr ''Failed to process your request''),
                         (''status'', JStr ''error'')],
         status_code = 500\<rparr>)
 \<and> (\<forall>kvs city e.
      data req \<noteq> [] \<and> get_json env req = Inr (JObject kvs) \<and> map_of kvs ''city'' = Some city
      \<and> model_predict_heatwave env city = Inl e \<longrightarrow>
      predict_heatwave_try env req = (Inl e, [city]))
 \<and> (\<forall>kvs city rows e.
      data req \<noteq> [] \<and> get_json env req = Inr (JObject kvs) \<and> map_of kvs ''city'' = Some city
      \<and> model_predict_heatwave env city = Inr rows \<and> format_rows env rows = Inl e \<longrightarrow>
      predict_heatwave_try env req = (Inl e, [city]))
 \<and> status_code (get_historical_data env req) \<in> {200, 400, 404, 500}
 \<and> (status_code (get_historical_data env req) \<noteq> 200 \<longrightarrow>
      (\<exists>e m. body (get_historical_data env req) =
         JObject [(''error'', JStr e), (''message'', JStr m), (''status'', JStr ''error'')]))
 \<and> (status_code (get_historical_data env req) = 400 \<longleftrightarrow>
      map_of (args req) ''city'' = None \<or> map_of (args req) ''city'' = Some [])
 \<and> (status_code (get_historical_data env req) = 404 \<longleftrightarrow>
      (\<exists>city. map_of (args req) ''city'' = Some city \<and> city \<noteq> []
         \<and> (data_file env = None
            \<or> (\<exists>f. data_file env = Some f
                 \<and> (\<not> path_exists env f
                    \<or> (\<exists>historical_data. read_csv env f = Inr historical_data
                         \<and> filter (\<lambda>r. h_city r = city) historical_data = []))))))
 \<and> (status_code (get_historical_data env req) = 500 \<longleftrightarrow>
      (\<exists>e. get_historical_data_try env req = Inl e))
 \<and> (\<forall>e. get_historical_data_try env req = Inl e \<longrightarrow>
      get_historical_data env req =
        \<lparr>body = JObject [(''error'', JStr (str e)),
                         (''message'', JStr ''Failed to fetch historical data''),
                         (''status'', JStr ''error'')],
         status_code = 500\<rparr>)
 \<and> (\<forall>city f e.
      map_of (args req) ''city'' = Some city \<and> city \<noteq> [] \<and> data_file env = Some f
      \<and> path_exists env f \<and> read_csv env f = Inl e \<longrightarrow>
      get_historical_data_try env req = Inl e)"
proof (intro conjI)
  show "status_code (fst (predict_heatwave env req)) \<in> {200, 400, 500}"
    by (rule post_status_codes)
  show "status_code (fst (predict_heatwave env req)) \<noteq> 200 \<longrightarrow>
      (\<exists>e m. body (fst (predict_heatwave env req)) =
         JObject [(''error'', JStr e), (''message'', JStr m), (''status'', JStr ''error'')])"
    by (intro impI post_error_shape)
  show "status_code (fst (predict_heatwave env req)) = 400 \<longleftrightarrow>
      data req = []
      \<or> (\<exists>d. get_json env req = Inr d \<and> (\<not> truthy d \<or> contains ''city'' d = Inr False))"
    by (rule post_400_iff)
  show "status_code (fst (predict_heatwave env req)) = 500 \<longleftrightarrow>
      (\<exists>e calls. predict_heatwave_try env req = (Inl e, calls))"
    by (rule post_500_iff)
  show "\<forall>e calls. predict_heatwave_try env req = (Inl e, calls) \<longrightarrow>
      fst (predict_heatwave env req) =
        \<lparr>body = JObject [(''error'', JStr (str e)),
                         (''message'', JStr ''Failed to process your request''),
                         (''status'', JStr ''error'')],
         status_code = 500\<rparr>"
    by (intro allI impI post_exception_verbatim)
  show "\<forall>kvs city e.
      data req \<noteq> [] \<and> get_json env req = Inr (JObject kvs) \<and> map_of kvs ''city'' = Some city
      \<and> model_predict_heatwave env city = Inl e \<longrightarrow>
      predict_heatwave_try env req = (Inl e, [city])"
    by (intro allI impI, elim conjE) (rule model_exception_500)
  show "\<forall>kvs city rows e.
      data req \<noteq> [] \<and> get_json env req = Inr (JObject kvs) \<and> map_of kvs ''city'' = Some city
      \<and> model_predict_heatwave env city = Inr rows \<and> format_rows env rows = Inl e \<longrightarrow>
      predict_heatwave_try env req = (Inl e, [city])"
    by (intro allI impI, elim conjE) (rule formatter_exception_500)
  show "status_code (get_historical_data env req) \<in> {200, 400, 404, 500}"
    by (rule get_status_codes)
  show "status_code (get_historical_data env req) \<noteq> 200 \<longrightarrow>
      (\<exists>e m. body (get_historical_data env req) =
         JObject [(''error'', JStr e), (''message'', JStr m), (''status'', JStr ''error'')])"
    by (intro impI get_error_shape)
  show "status_code (get_historical_data env req) = 400 \<longleftrightarrow>
      map_of (args req) ''city'' = None \<or> map_of (args req) ''city'' = Some []"
    by (rule get_400_iff)
  show "status_code (get_historical_data env req) = 404 \<longleftrightarrow>
      (\<exists>city. map_of (args req) ''city'' = Some city \<and> city \<noteq> []
         \<and> (data_file env = None
            \<or> (\<exists>f. data_file env = Some f
                 \<and> (\<not> path_exists env f
                    \<or> (\<exists>historical_data. read_csv env f = Inr historical_data
                         \<and> filter (\<lambda>r. h_city r = city) historical_data = [])))))"
    by (rule get_404_iff)
  show "status_code (get_historical_data env req) = 500 \<longleftrightarrow>
      (\<exists>e. get_historical_data_try env req = Inl e)"
    by (rule get_500_iff)
  show "\<forall>e. get_historical_data_try env req = Inl e \<longrightarrow>
      get_historical_data env req =
        \<lparr>body = JObject [(''error'', JStr (str e)),
                         (''message'', JStr ''Failed to fetch historical data''),
                         (''status'', JStr ''error'')],
         status_code = 500\<rparr>"
    by (intro allI impI get_exception_verbatim)
  show "\<forall>city f e.
      map_of (args req) ''city'' = Some city \<and> city \<noteq> [] \<and> data_file env = Some f
      \<and> path_exists env f \<and> read_csv env f = Inl e \<longrightarrow>
      get_historical_data_try env req = Inl e"
    by (intro allI impI, elim conjE) (rule read_csv_exception)
qed

text \<open>
  C3. The envelope has its three keys on every response that is not a 200, and no
  exception leaves a handler; but the status does not follow the class of the fault.
  Requests at fault in their input are answered with status 500, not 400: a body that
  is not JSON (the inner handler names an exception class \<^verbatim>\<open>get_json\<close> never raises, as
  in C1), a JSON body sent without a JSON content type, the body \<^verbatim>\<open>5\<close> and the body
  \<^verbatim>\<open>["city"]\<close> (the test \<^verbatim>\<open>'city' not in data\<close> and the lookup \<^verbatim>\<open>data['city']\<close> raise
  on a value that is not a dict).
\<close>

theorem client_input_faults_answered_500:
  "predict_heatwave sample_env (post ''not json'') =
     (\<lparr>body = JObject
         [(''error'', JStr (''400 Bad Request: The browser (or proxy) sent a request that ''
                            @ ''this server could not understand.'')),
          (''message'', JStr ''Failed to process your request''),
          (''status'', JStr ''error'')],
       status_code = 500\<rparr>, [])
   \<and> predict_heatwave sample_env
        \<lparr>data = ''{\"city\": \"Phoenix\"}'', is_json = False, args = []\<rparr> =
     (\<lparr>body = JObject
         [(''error'',
           JStr (''415 Unsupported Media Type: Did not attempt to load JSON data because ''
                 @ ''the request Content-Type was not '' @ quoted ''application/json'' @ ''.'')),
          (''message'', JStr ''Failed to process your request''),
          (''status'', JStr ''error'')],
       status_code = 500\<rparr>, [])
   \<and> predict_heatwave sample_env (post ''5'') =
     (\<lparr>body = JObject
         [(''error'', JStr (''argument of type '' @ quoted ''int'' @ '' is not iterable'')),
          (''message'', JStr ''Failed to process your request''),
          (''status'', JStr ''error'')],
       status_code = 500\<rparr>, [])
   \<and> predict_heatwave sample_env (post ''[\"city\"]'') =
     (\<lparr>body = JObject
         [(''error'', JStr ''list indices must be integers or slices, not str''),
          (''message'', JStr ''Failed to process your request''),
          (''status'', JStr ''error'')],
       status_code = 500\<rparr>, [])"
proof -
  have a: "predict_heatwave sample_env (post ''not json'') =
     (\<lparr>body = JObject
         [(''error'', JStr (''400 Bad Request: The browser (or proxy) sent a request that ''
                            @ ''this server could not understand.'')),
          (''message'', JStr ''Failed to process your request''),
          (''status'', JStr ''error'')],
       status_code = 500\<rparr>, [])"
    by (simp add: predict_heatwave_def predict_heatwave_try_def get_json_def
        on_json_loading_failed_def sample_env_def sample_loads_def post_def jsonify_def
        envelope_def)
  have b: "predict_heatwave sample_env
        \<lparr>data = ''{\"city\": \"Phoenix\"}'', is_json = False, args = []\<rparr> =
     (\<lparr>body = JObject
         [(''error'',
           JStr (''415 Unsupported Media Type: Did not attempt to load JSON data because ''
                 @ ''the request Content-Type was not '' @ quoted ''application/json'' @ ''.'')),
          (''message'', JStr ''Failed to process your request''),
          (''status'', JStr ''error'')],
       status_code = 500\<rparr>, [])"
    by (simp add: predict_heatwave_def predict_heatwave_try_def get_json_def
        on_json_loading_failed_def jsonify_def envelope_def)
  have g5: "get_json sample_env (post ''5'') = Inr (JInt 5)"
    by (simp add: sample_get_json sample_loads_values)
  have c: "predict_heatwave sample_env (post ''5'') =
     (\<lparr>body = JObject
         [(''error'', JStr (''argument of type '' @ quoted ''int'' @ '' is not iterable'')),
          (''message'', JStr ''Failed to process your request''),
          (''status'', JStr ''error'')],
       status_code = 500\<rparr>, [])"
    using g5
    by (simp add: predict_heatwave_def predict_heatwave_try_def post_def jsonify_def
        envelope_def)
  have gl: "get_json sample_env (post ''[\"city\"]'') = Inr (JArray [JStr ''city''])"
    by (simp add: sample_get_json sample_loads_values)
  have d: "predict_heatwave sample_env (post ''[\"city\"]'') =
     (\<lparr>body = JObject
         [(''error'', JStr ''list indices must be integers or slices, not str''),
          (''message'', JStr ''Failed to process your request''),
          (''status'', JStr ''error'')],
       status_code = 500\<rparr>, [])"
    using gl
    by (simp add: predict_heatwave_def predict_heatwave_try_def post_def jsonify_def
        envelope_def)
  show ?thesis
    by (intro conjI) (rule a b c d)+
qed

end
